theory Spec2Isabelle
  imports Complex_Main "HOL-Library.Char_ord" "HOL-Library.List_Lexorder"
begin

section \<open>The air pollution bot: store, subscriptions, reconciliation\<close>

text \<open>
  A shallow embedding of the Go sources \<^verbatim>\<open>owmapi.go\<close>, \<^verbatim>\<open>store.go\<close> and
  \<^verbatim>\<open>bot.go\<close> (the newer of the two copies of \<^verbatim>\<open>bot.go\<close>). Conventions of the model:
  \<^item> Go's \<^verbatim>\<open>int64\<close> and \<^verbatim>\<open>int\<close> identifiers (chat ids, row ids, the AQI level) are
    \<open>int\<close>: the code only compares them, it never does arithmetic on them.
  \<^item> A finite \<^verbatim>\<open>float64\<close> is the real number it stands for, and an operation on
    \<^verbatim>\<open>float64\<close> rounds as the machine does.
  \<^item> A \<^verbatim>\<open>time.Time\<close> is the number of nanoseconds since the Unix epoch, a
    \<^verbatim>\<open>time.Duration\<close> is a number of nanoseconds; \<^verbatim>\<open>time.Now()\<close> is a parameter \<open>now\<close>.
  \<^item> The SQLite database behind \<^verbatim>\<open>Store.DB\<close> is its three tables, each the list of its rows
    in insertion order, together with the AUTOINCREMENT counters. A well-formed statement
    is executed without an I/O fault; a statement SQLite cannot parse fails.
  \<^item> A Go result \<^verbatim>\<open>(value, error)\<close> is a sum (\<open>Inl\<close> the error); a result \<^verbatim>\<open>error\<close> of an
    operation that writes is \<open>error option\<close> paired with the store it leaves behind. A
    panic is an error of the handler, paired with the state at the panic.
\<close>

subsection \<open>Arithmetic of float64\<close>

text \<open>
  The result of an operation on \<^verbatim>\<open>float64\<close> is the exact result rounded to the nearest
  number with 53 significant bits and an exponent of at least \<open>-1074\<close>, to the one with
  an even last bit when two are equally near. \<open>floor_log2 n x\<close> is the binary exponent
  of a positive \<open>x\<close>, found in at most \<open>n\<close> steps; 1100 steps reach every exponent of a
  \<^verbatim>\<open>float64\<close>. Coordinates are finite, so no operand is an infinity or a NaN. Where a
  difference leaves the range of \<^verbatim>\<open>float64\<close>, Go has an infinity and the model a number of
  magnitude \<open>2 ^ 1024\<close> or more; both are above every bound they are compared with.
\<close>

type_synonym float64 = real

fun floor_log2 :: "nat \<Rightarrow> real \<Rightarrow> int" where
  "floor_log2 0 x = 0"
| "floor_log2 (Suc n) x =
     (if x < 1 then floor_log2 n (2 * x) - 1
      else if 2 \<le> x then floor_log2 n (x / 2) + 1
      else 0)"

definition two_to :: "int \<Rightarrow> real" where
  "two_to e = (if 0 \<le> e then 2 ^ nat e else 1 / 2 ^ nat (- e))"

definition round_half_even :: "real \<Rightarrow> int" where
  "round_half_even y =
     (let f = \<lfloor>y\<rfloor>; d = y - of_int f
      in if d < 1 / 2 then f
         else if 1 / 2 < d then f + 1
         else if even f then f
         else f + 1)"

definition float64_round :: "real \<Rightarrow> float64" where
  "float64_round x =
     (if x = 0 then 0
      else (let e = max (floor_log2 1100 \<bar>x\<bar>) (- 1022) - 52
            in of_int (round_half_even (x / two_to e)) * two_to e))"

text \<open>The operator \<^verbatim>\<open>-\<close> on \<^verbatim>\<open>float64\<close> and \<^verbatim>\<open>math.Abs\<close>.\<close>

definition float64_sub :: "float64 \<Rightarrow> float64 \<Rightarrow> float64" where
  "float64_sub x y = float64_round (x - y)"

definition math_Abs :: "float64 \<Rightarrow> float64" where
  "math_Abs x = \<bar>x\<bar>"

subsection \<open>Provider data (owmapi.go)\<close>

type_synonym AirQualityIndex = int

record Location =
  Latitude :: float64
  Longitude :: float64

text \<open>\<^verbatim>\<open>DataPoint\<close>: \<open>Main_Aqi\<close> is the field \<^verbatim>\<open>Main.Aqi\<close>; \<open>Components\<close> lists the entries of
  the map of concentrations.\<close>

record DataPoint =
  Dt :: int
  Main_Aqi :: AirQualityIndex
  Components :: "(string \<times> float64) list"

definition GetAQI :: "DataPoint \<Rightarrow> AirQualityIndex" where
  "GetAQI dp = Main_Aqi dp"

text \<open>The zero value \<^verbatim>\<open>DataPoint{}\<close>.\<close>

definition DataPoint_zero :: DataPoint where
  "DataPoint_zero = \<lparr>Dt = 0, Main_Aqi = 0, Components = []\<rparr>"

record ApiPollutionResponse =
  coord :: Location
  DP :: "DataPoint list"

subsection \<open>Errors\<close>

text \<open>\<^verbatim>\<open>sql.ErrNoRows\<close>, \<^verbatim>\<open>ErrNotificationExists\<close>, a syntax error of SQLite near a word, an
  error of the provider, and the panic \<^verbatim>\<open>key argument is not a Reference\<close> of
  \<^verbatim>\<open>message.Printer.Sprintf\<close>.\<close>

datatype error =
    ErrNoRows
  | ErrNotificationExists
  | ErrSyntax string
  | ErrProvider
  | ErrNotReference

subsection \<open>Time (package time)\<close>

definition Second :: int where
  "Second = 1000000000"

definition Minute :: int where
  "Minute = 60 * Second"

definition Hour :: int where
  "Hour = 60 * Minute"

definition minDuration :: int where
  "minDuration = - (2 ^ 63)"

definition maxDuration :: int where
  "maxDuration = 2 ^ 63 - 1"

text \<open>Arithmetic on \<^verbatim>\<open>int64\<close> wraps around.\<close>

definition wrap_int64 :: "int \<Rightarrow> int" where
  "wrap_int64 x = (x + 2 ^ 63) mod 2 ^ 64 - 2 ^ 63"

text \<open>\<^verbatim>\<open>time.Unix(sec, nsec)\<close>. A \<^verbatim>\<open>Time\<close> keeps its seconds as an \<^verbatim>\<open>int64\<close> counted from the
  year 1, which is \<^verbatim>\<open>sec + unixToInternal\<close>, so seconds near the end of \<^verbatim>\<open>int64\<close> wrap
  around to a time far in the past. Nanoseconds outside of a second are carried into the
  seconds first.\<close>

definition unixToInternal :: int where
  "unixToInternal = 62135596800"

definition time_Unix :: "int \<Rightarrow> int \<Rightarrow> int" where
  "time_Unix sec nsec =
     (wrap_int64 (sec + nsec div Second + unixToInternal) - unixToInternal) * Second +
     nsec mod Second"

text \<open>\<^verbatim>\<open>time.Since(t)\<close> is \<^verbatim>\<open>time.Now().Sub(t)\<close>; \<^verbatim>\<open>Sub\<close> is the difference of the two
  times, and the least or the greatest \<^verbatim>\<open>Duration\<close> when the difference is beyond them.\<close>

definition time_Since :: "int \<Rightarrow> int \<Rightarrow> int" where
  "time_Since now t =
     (let d = now - t
      in if d < minDuration then minDuration
         else if maxDuration < d then maxDuration
         else d)"

subsection \<open>Times as text (go-sqlite3)\<close>

text \<open>
  The driver binds a \<^verbatim>\<open>time.Time\<close> parameter as text, in the layout
  \<^verbatim>\<open>2006-01-02 15:04:05.999999999-07:00\<close> and in the zone of the value, which for
  \<^verbatim>\<open>time.Unix\<close> and \<^verbatim>\<open>time.Now\<close> is the local zone of the process. SQLite keeps the text
  and compares two texts byte by byte, a shorter text before its extensions, which is the
  order \<open><\<close> of strings. A zone is the offset from UTC, in seconds, that it has at a Unix
  second. The date is worked out from the count of days in the Gregorian calendar.
\<close>

definition digit :: "int \<Rightarrow> char" where
  "digit d = ''0123456789'' ! nat d"

definition digits2 :: "int \<Rightarrow> string" where
  "digits2 n = [digit (n div 10 mod 10), digit (n mod 10)]"

fun decimal :: "nat \<Rightarrow> string" where
  "decimal n =
     (if n < 10 then [digit (int n)]
      else decimal (n div 10) @ [digit (int (n mod 10))])"

declare decimal.simps [simp del]

text \<open>A year: four digits at least, with a sign when negative.\<close>

definition digits4 :: "int \<Rightarrow> string" where
  "digits4 n =
     (if 0 \<le> n \<and> n \<le> 9999
      then [digit (n div 1000 mod 10), digit (n div 100 mod 10), digit (n div 10 mod 10),
            digit (n mod 10)]
      else if n < 0 then ''-'' @ decimal (nat (- n))
      else decimal (nat n))"

definition civil_m :: "int \<Rightarrow> int \<Rightarrow> int \<Rightarrow> string" where
  "civil_m y d m =
     digits4 (if m \<le> 2 then y + 1 else y) @ ''-'' @ digits2 m @ ''-'' @ digits2 d"

definition civil_mp :: "int \<Rightarrow> int \<Rightarrow> int \<Rightarrow> int \<Rightarrow> string" where
  "civil_mp era yoe doy mp =
     civil_m (yoe + era * 400) (doy - (153 * mp + 2) div 5 + 1)
       (if mp < 10 then mp + 3 else mp - 9)"

definition civil_doy :: "int \<Rightarrow> int \<Rightarrow> int \<Rightarrow> string" where
  "civil_doy era yoe doy = civil_mp era yoe doy ((5 * doy + 2) div 153)"

definition civil_yoe :: "int \<Rightarrow> int \<Rightarrow> int \<Rightarrow> string" where
  "civil_yoe era doe yoe = civil_doy era yoe (doe - (365 * yoe + yoe div 4 - yoe div 100))"

definition civil_doe :: "int \<Rightarrow> int \<Rightarrow> string" where
  "civil_doe era doe =
     civil_yoe era doe ((doe - doe div 1460 + doe div 36524 - doe div 146096) div 365)"

text \<open>The date of a day counted from the first of January 1970.\<close>

definition date_text :: "int \<Rightarrow> string" where
  "date_text days = civil_doe ((days + 719468) div 146097) ((days + 719468) mod 146097)"

definition clock_text :: "int \<Rightarrow> string" where
  "clock_text tod =
     digits2 (tod div 3600) @ '':'' @ digits2 (tod div 60 mod 60) @ '':'' @ digits2 (tod mod 60)"

text \<open>The fraction of a second: nine digits without the zeros at their end, and nothing
  for a whole second.\<close>

definition fraction_text :: "int \<Rightarrow> string" where
  "fraction_text nsec =
     (if nsec = 0 then []
      else ''.'' @
           rev (dropWhile (\<lambda>c. c = CHR ''0'')
                  (rev (digits2 (nsec div 10000000) @ digits2 (nsec div 100000 mod 100) @
                        digits2 (nsec div 1000 mod 100) @ digits2 (nsec div 10 mod 100) @
                        [digit (nsec mod 10)]))))"

definition offset_text :: "int \<Rightarrow> string" where
  "offset_text offset =
     (if offset < 0 then ''-'' else ''+'') @
     digits2 (\<bar>offset\<bar> div 3600) @ '':'' @ digits2 (\<bar>offset\<bar> div 60 mod 60)"

definition local_text :: "int \<Rightarrow> int \<Rightarrow> int \<Rightarrow> string" where
  "local_text offset local nsec =
     date_text (local div 86400) @ '' '' @ clock_text (local mod 86400) @
     fraction_text nsec @ offset_text offset"

definition zone_text :: "int \<Rightarrow> int \<Rightarrow> int \<Rightarrow> string" where
  "zone_text offset sec nsec = local_text offset (sec + offset) nsec"

text \<open>The text of a time in a zone.\<close>

definition sqlite_time_text :: "(int \<Rightarrow> int) \<Rightarrow> int \<Rightarrow> string" where
  "sqlite_time_text zone t = zone_text (zone (t div Second)) (t div Second) (t mod Second)"

text \<open>The result of \<^verbatim>\<open>datetime\<close> of SQLite for a Unix second: date and time in UTC.\<close>

definition sqlite_datetime :: "int \<Rightarrow> string" where
  "sqlite_datetime sec = date_text (sec div 86400) @ '' '' @ clock_text (sec mod 86400)"

text \<open>Two zones: UTC, and New York between March 2023 and March 2024, where the clocks
  go back by an hour on the fifth of November 2023 at 06:00 UTC.\<close>

definition UTC :: "int \<Rightarrow> int" where
  "UTC sec = 0"

definition New_York :: "int \<Rightarrow> int" where
  "New_York sec = (if sec < 1699164000 then - 14400 else - 18000)"

subsection \<open>The store (store.go)\<close>

record UserSession =
  UserID :: int
  ChatID :: int
  LanguageCode :: string
  Longitude :: float64
  Latitude :: float64
  CreatedAt :: int

text \<open>\<^verbatim>\<open>AQISubscription\<close> embeds \<^verbatim>\<open>UserSession\<close> and \<^verbatim>\<open>AirQualityIndex\<close>.\<close>

record AQISubscription = UserSession +
  ID :: int
  AirQualityIndex :: AirQualityIndex

text \<open>The rows of the tables \<^verbatim>\<open>user_session\<close>, \<^verbatim>\<open>data_point\<close> and \<^verbatim>\<open>subscription\<close> of
  \<^verbatim>\<open>sqlSchema\<close>. The column \<^verbatim>\<open>data\<close> holds the JSON of a \<^verbatim>\<open>DataPoint\<close>, which
  \<^verbatim>\<open>json.Unmarshal\<close> reads back as it was written. A row keeps the time of its column
  \<^verbatim>\<open>created_at\<close>; the text that the column holds is \<open>time_text\<close> of it.\<close>

record user_session_row =
  us_chatid :: int
  us_userid :: int
  us_language :: string
  us_longitude :: float64
  us_latitude :: float64
  us_created_at :: int

record data_point_row =
  dp_id :: int
  dp_chat_id :: int
  dp_data :: DataPoint
  dp_created_at :: int

record subscription_row =
  sub_id :: int
  sub_chat_id :: int
  sub_language :: string
  sub_longitude :: float64
  sub_latitude :: float64
  sub_aqi :: int
  sub_enabled :: int
  sub_created_at :: int

text \<open>\<^verbatim>\<open>Store\<close>: the database and \<^verbatim>\<open>CacheTime\<close>. \<open>time_text\<close> is the text the connection
  writes for a time, which depends on the local zone of the process.\<close>

record Store =
  user_session :: "user_session_row list"
  data_point :: "data_point_row list"
  data_point_seq :: int
  subscription :: "subscription_row list"
  subscription_seq :: int
  CacheTime :: int
  time_text :: "int \<Rightarrow> string"

text \<open>The store \<^verbatim>\<open>NewBot\<close> builds on a new database file, in a process whose local zone
  is UTC: \<^verbatim>\<open>CacheTime\<close> is \<^verbatim>\<open>10 * time.Minute\<close>, and \<^verbatim>\<open>Store.Init\<close> has created the three
  tables, all empty. On a database that has the tables, \<^verbatim>\<open>CREATE TABLE IF NOT EXISTS\<close>
  changes nothing.\<close>

definition NewStore :: Store where
  "NewStore =
     \<lparr>user_session = [], data_point = [], data_point_seq = 0,
      subscription = [], subscription_seq = 0, CacheTime = 10 * Minute,
      time_text = sqlite_time_text UTC\<rparr>"

definition Init :: "Store \<Rightarrow> error option \<times> Store" where
  "Init s = (None, s)"

text \<open>\<^verbatim>\<open>UpdateUserSession\<close>: \<^verbatim>\<open>REPLACE INTO user_session\<close>. The column \<^verbatim>\<open>chatid\<close> is the
  primary key, so the statement deletes the rows with this \<^verbatim>\<open>chatid\<close> and inserts the new
  one.\<close>

definition UpdateUserSession :: "int \<Rightarrow> UserSession \<Rightarrow> Store \<Rightarrow> error option \<times> Store" where
  "UpdateUserSession now n s =
     (None,
      s\<lparr>user_session :=
          filter (\<lambda>r. us_chatid r \<noteq> ChatID n) (user_session s) @
          [\<lparr>us_chatid = ChatID n, us_userid = UserID n, us_language = LanguageCode n,
            us_longitude = Longitude n, us_latitude = Latitude n,
            us_created_at = now\<rparr>]\<rparr>)"

text \<open>\<^verbatim>\<open>AddDataPoint\<close>: one \<^verbatim>\<open>INSERT\<close> for each data point of the response, with
  \<^verbatim>\<open>created_at = time.Unix(dp.Dt, 0)\<close>.\<close>

definition insert_data_point :: "int \<Rightarrow> DataPoint \<Rightarrow> Store \<Rightarrow> Store" where
  "insert_data_point chatID dp s =
     s\<lparr>data_point :=
          data_point s @
          [\<lparr>dp_id = data_point_seq s + 1, dp_chat_id = chatID, dp_data = dp,
            dp_created_at = time_Unix (Dt dp) 0\<rparr>],
        data_point_seq := data_point_seq s + 1\<rparr>"

fun AddDataPoint :: "int \<Rightarrow> DataPoint list \<Rightarrow> Store \<Rightarrow> error option \<times> Store" where
  "AddDataPoint chatID [] s = (None, s)"
| "AddDataPoint chatID (dp # dps) s = AddDataPoint chatID dps (insert_data_point chatID dp s)"

text \<open>\<^verbatim>\<open>GetSessionByChatID\<close>: the first row of the \<^verbatim>\<open>SELECT\<close>, or \<^verbatim>\<open>sql.ErrNoRows\<close>.\<close>

definition GetSessionByChatID :: "Store \<Rightarrow> int \<Rightarrow> error + UserSession" where
  "GetSessionByChatID s chatID =
     (case filter (\<lambda>r. us_chatid r = chatID) (user_session s) of
        [] \<Rightarrow> Inl ErrNoRows
      | r # _ \<Rightarrow>
          Inr \<lparr>UserID = us_userid r, ChatID = us_chatid r, LanguageCode = us_language r,
               Longitude = us_longitude r, Latitude = us_latitude r,
               CreatedAt = us_created_at r\<rparr>)"

text \<open>\<^verbatim>\<open>ORDER BY created_at DESC LIMIT 1\<close>: a row whose text of \<^verbatim>\<open>created_at\<close> is the
  greatest; among equal ones (SQLite leaves the choice open) the model takes the one
  inserted first. \<open>text\<close> gives the text of a time.\<close>

fun order_by_created_at_desc_limit_1 ::
  "(int \<Rightarrow> string) \<Rightarrow> data_point_row list \<Rightarrow> data_point_row option"
where
  "order_by_created_at_desc_limit_1 text [] = None"
| "order_by_created_at_desc_limit_1 text (r # rs) =
     (case order_by_created_at_desc_limit_1 text rs of
        None \<Rightarrow> Some r
      | Some m \<Rightarrow>
          if text (dp_created_at r) < text (dp_created_at m) then Some m else Some r)"

text \<open>\<^verbatim>\<open>GetLastPD\<close>: on \<^verbatim>\<open>sql.ErrNoRows\<close> the result is \<^verbatim>\<open>&DataPoint{}\<close> with a nil error.\<close>

definition GetLastPD :: "Store \<Rightarrow> int \<Rightarrow> error + DataPoint" where
  "GetLastPD s chatID =
     (case order_by_created_at_desc_limit_1 (time_text s)
             (filter (\<lambda>r. dp_chat_id r = chatID) (data_point s)) of
        None \<Rightarrow> Inr DataPoint_zero
      | Some r \<Rightarrow> Inr (dp_data r))"

text \<open>\<^verbatim>\<open>ListAQISubscriptions\<close>: the enabled subscriptions of a chat. The \<^verbatim>\<open>SELECT\<close> does not
  read \<^verbatim>\<open>id\<close> and the table has no \<^verbatim>\<open>userid\<close>, so both keep their zero value.\<close>

definition ListAQISubscriptions :: "Store \<Rightarrow> int \<Rightarrow> error + AQISubscription list" where
  "ListAQISubscriptions s chatID =
     Inr (map (\<lambda>r. \<lparr>UserID = 0, ChatID = sub_chat_id r, LanguageCode = sub_language r,
                     Longitude = sub_longitude r, Latitude = sub_latitude r,
                     CreatedAt = sub_created_at r, ID = 0, AirQualityIndex = sub_aqi r\<rparr>)
            (filter (\<lambda>r. sub_chat_id r = chatID \<and> sub_enabled r = 1) (subscription s)))"

text \<open>The duplicate check of \<^verbatim>\<open>AddAQISubscription\<close>: the \<^verbatim>\<open>for\<close> loop that returns
  \<^verbatim>\<open>ErrNotificationExists\<close> at the first subscription close to the session on either axis.
  The constant \<^verbatim>\<open>0.0009\<close> is converted to the nearest \<^verbatim>\<open>float64\<close>.\<close>

fun duplicate_check :: "UserSession \<Rightarrow> AQISubscription list \<Rightarrow> bool" where
  "duplicate_check us [] = False"
| "duplicate_check us (s # subs) =
     (if math_Abs (float64_sub (Latitude s) (Latitude us)) < float64_round 0.0009 \<or>
         math_Abs (float64_sub (Longitude s) (Longitude us)) < float64_round 0.0009
      then True
      else duplicate_check us subs)"

definition AddAQISubscription :: "int \<Rightarrow> int \<Rightarrow> Store \<Rightarrow> error option \<times> Store" where
  "AddAQISubscription now chatID s =
     (case GetSessionByChatID s chatID of
        Inl err \<Rightarrow> (Some err, s)
      | Inr us \<Rightarrow>
          (case ListAQISubscriptions s chatID of
             Inl err \<Rightarrow> (Some err, s)
           | Inr subs \<Rightarrow>
               if duplicate_check us subs then (Some ErrNotificationExists, s)
               else
                 (case GetLastPD s chatID of
                    Inl err \<Rightarrow> (Some err, s)
                  | Inr dp \<Rightarrow>
                      (None,
                       s\<lparr>subscription :=
                            subscription s @
                            [\<lparr>sub_id = subscription_seq s + 1, sub_chat_id = ChatID us,
                              sub_language = LanguageCode us, sub_longitude = Longitude us,
                              sub_latitude = Latitude us, sub_aqi = GetAQI dp,
                              sub_enabled = 1, sub_created_at = now\<rparr>],
                          subscription_seq := subscription_seq s + 1\<rparr>))))"

text \<open>\<^verbatim>\<open>DeleteAQISubscriptions\<close>: \<^verbatim>\<open>UPDATE subscription SET enabled=0 WHERE chat_id=?\<close>.\<close>

definition DeleteAQISubscriptions :: "int \<Rightarrow> Store \<Rightarrow> error option \<times> Store" where
  "DeleteAQISubscriptions chatID s =
     (None,
      s\<lparr>subscription :=
          map (\<lambda>r. if sub_chat_id r = chatID then r\<lparr>sub_enabled := 0\<rparr> else r)
            (subscription s)\<rparr>)"

text \<open>\<^verbatim>\<open>ListEnabledSubscriptions\<close>: all enabled subscriptions, with their ids.\<close>

definition ListEnabledSubscriptions :: "Store \<Rightarrow> error + AQISubscription list" where
  "ListEnabledSubscriptions s =
     Inr (map (\<lambda>r. \<lparr>UserID = 0, ChatID = sub_chat_id r, LanguageCode = sub_language r,
                     Longitude = sub_longitude r, Latitude = sub_latitude r,
                     CreatedAt = sub_created_at r, ID = sub_id r,
                     AirQualityIndex = sub_aqi r\<rparr>)
            (filter (\<lambda>r. sub_enabled r = 1) (subscription s)))"

text \<open>\<^verbatim>\<open>UpdateSubscriptionAQI\<close>: \<^verbatim>\<open>UPDATE subscription SET aqi=? WHERE id=?\<close>.\<close>

definition UpdateSubscriptionAQI :: "int \<Rightarrow> AirQualityIndex \<Rightarrow> Store \<Rightarrow> error option \<times> Store" where
  "UpdateSubscriptionAQI subID aqi s =
     (None,
      s\<lparr>subscription :=
          map (\<lambda>r. if sub_id r = subID then r\<lparr>sub_aqi := aqi\<rparr> else r) (subscription s)\<rparr>)"

subsection \<open>The cleanup statements (store.go)\<close>

text \<open>
  SQLite's grammar of a deletion is \<^verbatim>\<open>DELETE FROM table WHERE expr\<close>: the keyword
  \<^verbatim>\<open>FROM\<close> is not optional. \<^verbatim>\<open>DB.Exec\<close> prepares the statement before it touches a row, and
  a statement that does not parse fails with \<^verbatim>\<open>near "token": syntax error\<close>. The model reads
  the head of the statement text as the parser does, word by word.
\<close>

fun split_blank :: "string \<Rightarrow> string list" where
  "split_blank [] = [] # []"
| "split_blank (c # cs) =
     (if c = CHR '' '' then [] # split_blank cs
      else (case split_blank cs of
              [] \<Rightarrow> [c] # []
            | w # ws \<Rightarrow> (c # w) # ws))"

definition sql_words :: "string \<Rightarrow> string list" where
  "sql_words q = filter (\<lambda>w. w \<noteq> []) (split_blank q)"

text \<open>The table a \<^verbatim>\<open>DELETE\<close> statement names, or the syntax error at the first word that
  does not fit.\<close>

fun prepare_delete :: "string list \<Rightarrow> error + string" where
  "prepare_delete (d # f # t # ws) =
     (if d \<noteq> ''DELETE'' then Inl (ErrSyntax d)
      else if f \<noteq> ''FROM'' then Inl (ErrSyntax f)
      else Inr t)"
| "prepare_delete ws = Inl (ErrSyntax [])"

text \<open>\<^verbatim>\<open>ClenupAQISubscriptions\<close>: the statement text is the one of the source; when it is
  accepted, the rows with \<^verbatim>\<open>enabled=0\<close> are deleted.\<close>

definition ClenupAQISubscriptions :: "Store \<Rightarrow> error option \<times> Store" where
  "ClenupAQISubscriptions s =
     (case prepare_delete (sql_words ''DELETE subscription WHERE enabled=0'') of
        Inl err \<Rightarrow> (Some err, s)
      | Inr t \<Rightarrow>
          (None, s\<lparr>subscription := filter (\<lambda>r. sub_enabled r \<noteq> 0) (subscription s)\<rparr>))"

text \<open>\<^verbatim>\<open>ClenupDataPoint\<close>: when the statement is accepted, the rows with
  \<^verbatim>\<open>created_at <= datetime('now', '-12 hour')\<close> are deleted, a comparison of two texts.\<close>

definition ClenupDataPoint :: "int \<Rightarrow> Store \<Rightarrow> error option \<times> Store" where
  "ClenupDataPoint now s =
     (case prepare_delete
             (sql_words ''DELETE data_point WHERE created_at <= datetime('now', '-12 hour')'') of
        Inl err \<Rightarrow> (Some err, s)
      | Inr t \<Rightarrow>
          (None,
           s\<lparr>data_point :=
               filter (\<lambda>r. \<not> time_text s (dp_created_at r) \<le>
                                 sqlite_datetime ((now - 12 * Hour) div Second))
                 (data_point s)\<rparr>))"

subsection \<open>The bot (bot.go)\<close>

text \<open>What \<^verbatim>\<open>bot.Send\<close> hands to the Telegram API: the chat, the language of the printer and
  the text, kept as the values it is rendered from. A failed delivery is logged and
  changes nothing else.\<close>

datatype headMsg = aqiGetsWorseMsg | aqiGetsBetterMsg

datatype msg_text =
    safeToRetryErrMsg
  | aqiChangeText headMsg AirQualityIndex

record MessageConfig =
  msg_ChatID :: int
  msg_language :: string
  msg_Text :: msg_text

record Bot =
  store :: Store
  tApi :: "MessageConfig list"

definition Send :: "MessageConfig \<Rightarrow> Bot \<Rightarrow> Bot" where
  "Send tgMsg b = b\<lparr>tApi := tApi b @ [tgMsg]\<rparr>"

text \<open>The fields of an incoming \<^verbatim>\<open>tgbotapi.Message\<close> the handler reads.\<close>

record Message =
  Chat_ID :: int
  From_ID :: int
  From_LanguageCode :: string
  msg_Location :: "Location option"

text \<open>The test of \<^verbatim>\<open>handleLocationMessage\<close> that guards the call of the provider:
  \<^verbatim>\<open>time.Since(time.Unix(dp.Dt, 0)) > bot.store.CacheTime\<close>.\<close>

definition cache_expired :: "int \<Rightarrow> Store \<Rightarrow> DataPoint \<Rightarrow> bool" where
  "cache_expired now s dp = (CacheTime s < time_Since now (time_Unix (Dt dp) 0))"

text \<open>\<^verbatim>\<open>handleLocationMessage\<close>. \<open>now\<close> is the time of the session update, \<open>now'\<close> the
  time of the cache test, \<open>wAPI\<close> the answer of the provider. The result is the error of
  a panic, if any, and the bot at the end or at the panic. Past the cache test the
  handler builds its text with \<^verbatim>\<open>p.Sprintf(dp.Main.Aqi)\<close>; the key is an
  \<^verbatim>\<open>AirQualityIndex\<close>, neither a string nor a message key, and \<^verbatim>\<open>Sprintf\<close> panics before
  anything is sent.\<close>

definition handleLocationMessage ::
  "int \<Rightarrow> int \<Rightarrow> (Location \<Rightarrow> error + ApiPollutionResponse) \<Rightarrow> Message \<Rightarrow> Bot \<Rightarrow>
   error option \<times> Bot"
where
  "handleLocationMessage now now' wAPI msg b =
     (case msg_Location msg of
        None \<Rightarrow> (None, b)
      | Some location \<Rightarrow>
          (let chatID = Chat_ID msg;
               languageCode = From_LanguageCode msg;
               us = \<lparr>UserID = From_ID msg, ChatID = chatID, LanguageCode = languageCode,
                     Longitude = Location.Longitude location,
                     Latitude = Location.Latitude location,
                     CreatedAt = time_Unix (- 62135596800) 0\<rparr>
           in case UpdateUserSession now us (store b) of
                (Some err, s1) \<Rightarrow> (Some err, b\<lparr>store := s1\<rparr>)
              | (None, s1) \<Rightarrow>
                  (case GetLastPD s1 chatID of
                     Inl err \<Rightarrow> (Some err, b\<lparr>store := s1\<rparr>)
                   | Inr dp \<Rightarrow>
                       if cache_expired now' s1 dp then
                         (case wAPI location of
                            Inl err \<Rightarrow>
                              (None,
                               Send \<lparr>msg_ChatID = chatID, msg_language = languageCode,
                                     msg_Text = safeToRetryErrMsg\<rparr>
                                 (b\<lparr>store := s1\<rparr>))
                          | Inr resp \<Rightarrow>
                              (case AddDataPoint chatID (DP resp) s1 of
                                 (Some err, s2) \<Rightarrow> (Some err, b\<lparr>store := s2\<rparr>)
                               | (None, s2) \<Rightarrow>
                                   (case GetLastPD s2 chatID of
                                      Inl err \<Rightarrow> (Some err, b\<lparr>store := s2\<rparr>)
                                    | Inr dp' \<Rightarrow> (Some ErrNotReference, b\<lparr>store := s2\<rparr>))))
                       else (Some ErrNotReference, b\<lparr>store := s1\<rparr>))))"

text \<open>The body of the \<^verbatim>\<open>for\<close> loop of \<^verbatim>\<open>Cron\<close> for one subscription \<open>s\<close> of the snapshot,
  given the answer \<open>r\<close> of the provider for its location. The state is the counter \<open>i\<close>
  and the bot \<open>b\<close>; every \<^verbatim>\<open>continue\<close> leaves the counter as it is.\<close>

definition cron_body ::
  "AQISubscription \<Rightarrow> error + ApiPollutionResponse \<Rightarrow> nat \<times> Bot \<Rightarrow> nat \<times> Bot"
where
  "cron_body s r ib =
     (case ib of (i, b) \<Rightarrow>
        (case r of
           Inl err \<Rightarrow> (i, b)
         | Inr resp \<Rightarrow>
             (case AddDataPoint (ChatID s) (DP resp) (store b) of
                (Some err, s1) \<Rightarrow> (i, b\<lparr>store := s1\<rparr>)
              | (None, s1) \<Rightarrow>
                  (case GetLastPD s1 (ChatID s) of
                     Inl err \<Rightarrow> (i, b\<lparr>store := s1\<rparr>)
                   | Inr dp \<Rightarrow>
                       if GetAQI dp \<noteq> AirQualityIndex s then
                         (case UpdateSubscriptionAQI (ID s) (GetAQI dp) s1 of
                            (Some err, s2) \<Rightarrow> (i, b\<lparr>store := s2\<rparr>)
                          | (None, s2) \<Rightarrow>
                              (let headMsg =
                                     (if GetAQI dp < AirQualityIndex s then aqiGetsBetterMsg
                                      else aqiGetsWorseMsg)
                               in (i + 1,
                                   Send \<lparr>msg_ChatID = ChatID s,
                                         msg_language = LanguageCode s,
                                         msg_Text = aqiChangeText headMsg (Main_Aqi dp)\<rparr>
                                     (b\<lparr>store := s2\<rparr>))))
                       else (i, b\<lparr>store := s1\<rparr>)))))"

fun cron_loop ::
  "(AQISubscription \<times> (error + ApiPollutionResponse)) list \<Rightarrow> nat \<times> Bot \<Rightarrow> nat \<times> Bot"
where
  "cron_loop [] ib = ib"
| "cron_loop ((s, r) # ps) ib = cron_loop ps (cron_body s r ib)"

text \<open>\<^verbatim>\<open>Cron\<close>: one snapshot of the enabled subscriptions, then the loop. \<open>wAPI k l\<close> is the
  answer of the provider to the \<open>k\<close>-th call of the run, for the location \<open>l\<close>. The result
  is the count of the log line \<^verbatim>\<open>Sent %d messages\<close> (none when the snapshot fails) and the
  bot.\<close>

definition Cron ::
  "(nat \<Rightarrow> Location \<Rightarrow> error + ApiPollutionResponse) \<Rightarrow> Bot \<Rightarrow> nat option \<times> Bot"
where
  "Cron wAPI b =
     (case ListEnabledSubscriptions (store b) of
        Inl err \<Rightarrow> (None, b)
      | Inr subs \<Rightarrow>
          (case cron_loop
                  (map (\<lambda>(k, s).
                          (s, wAPI k \<lparr>Location.Latitude = Latitude s,
                                       Location.Longitude = Longitude s\<rparr>))
                     (enumerate 0 subs))
                  (0, b) of
             (i, b') \<Rightarrow> (Some i, b')))"

text \<open>\<^verbatim>\<open>CronCleanup\<close> calls \<^verbatim>\<open>ClenupAQISubscriptions\<close> and nothing else.\<close>

definition CronCleanup :: "Bot \<Rightarrow> Bot" where
  "CronCleanup b =
     (case ClenupAQISubscriptions (store b) of
        (Some err, s1) \<Rightarrow> b\<lparr>store := s1\<rparr>
      | (None, s1) \<Rightarrow> b\<lparr>store := s1\<rparr>)"

subsection \<open>Notions the properties are stated with\<close>

text \<open>Every row of \<^verbatim>\<open>data_point\<close> carries the time of its reading: \<^verbatim>\<open>AddDataPoint\<close>, the
  only writer of the table, sets \<^verbatim>\<open>created_at\<close> to \<^verbatim>\<open>time.Unix(dp.Dt, 0)\<close>.\<close>

definition created_at_is_Dt :: "Store \<Rightarrow> bool" where
  "created_at_is_Dt s =
     (\<forall>r\<in>set (data_point s). dp_created_at r = time_Unix (Dt (dp_data r)) 0)"

text \<open>The texts of \<^verbatim>\<open>created_at\<close> of the readings of a chat are in the order of their
  times.\<close>

definition text_order_agrees :: "Store \<Rightarrow> int \<Rightarrow> bool" where
  "text_order_agrees s c =
     (\<forall>r\<in>set (data_point s). \<forall>r'\<in>set (data_point s).
        dp_chat_id r = c \<longrightarrow> dp_chat_id r' = c \<longrightarrow>
        time_text s (dp_created_at r) \<le> time_text s (dp_created_at r') \<longrightarrow>
        dp_created_at r \<le> dp_created_at r')"

text \<open>A sequence of session updates, each with the time it is made at.\<close>

fun update_sessions :: "(int \<times> UserSession) list \<Rightarrow> Store \<Rightarrow> Store" where
  "update_sessions [] s = s"
| "update_sessions ((now, n) # upds) s =
     update_sessions upds (snd (UpdateUserSession now n s))"

text \<open>
  The reconciliation of one subscription whose fetch succeeded. Follows the spec's words
  (4.3, steps 3 and 4), not the code: append the new readings to the reading store for
  the chat of the subscription and take the index of the most recent reading again;
  if it equals the last known index, nothing more; if it differs, update the last known
  index, emit one event with the chat, the language, the direction (improved if the new
  index is lower, degraded if it is higher) and the new index, and count it. A
  reconciliation of several runs them one after the other.
\<close>

definition reconcile_fetched ::
  "AQISubscription \<Rightarrow> ApiPollutionResponse \<Rightarrow> nat \<times> Bot \<Rightarrow> nat \<times> Bot"
where
  "reconcile_fetched sub reading cb =
     (let emitted = fst cb;
          appended = snd (AddDataPoint (ChatID sub) (DP reading) (store (snd cb)));
          old = AirQualityIndex sub;
          new = (case GetLastPD appended (ChatID sub) of
                   Inl e \<Rightarrow> old
                 | Inr dp \<Rightarrow> Main_Aqi dp)
      in if new = old then (emitted, (snd cb)\<lparr>store := appended\<rparr>)
         else (emitted + 1,
               \<lparr>store = snd (UpdateSubscriptionAQI (ID sub) new appended),
                tApi =
                  tApi (snd cb) @
                  [\<lparr>msg_ChatID = ChatID sub, msg_language = LanguageCode sub,
                    msg_Text =
                      aqiChangeText (if new < old then aqiGetsBetterMsg else aqiGetsWorseMsg)
                        new\<rparr>]\<rparr>))"

fun reconcile_all ::
  "(AQISubscription \<times> ApiPollutionResponse) list \<Rightarrow> nat \<times> Bot \<Rightarrow> nat \<times> Bot"
where
  "reconcile_all [] cb = cb"
| "reconcile_all ((sub, reading) # rest) cb =
     reconcile_all rest (reconcile_fetched sub reading cb)"

subsection \<open>Example states\<close>

text \<open>Chat 7 has shared the location (1.0005, 5), holds one reading with index 3 and one
  enabled subscription at (1, 2).\<close>

definition store_subscribed :: Store where
  "store_subscribed =
     \<lparr>user_session =
        [\<lparr>us_chatid = 7, us_userid = 70, us_language = ''en'', us_longitude = 5,
          us_latitude = float64_round 1.0005, us_created_at = 0\<rparr>],
      data_point =
        [\<lparr>dp_id = 1, dp_chat_id = 7,
          dp_data = \<lparr>Dt = 1700000000, Main_Aqi = 3, Components = []\<rparr>,
          dp_created_at = time_Unix 1700000000 0\<rparr>],
      data_point_seq = 1,
      subscription =
        [\<lparr>sub_id = 1, sub_chat_id = 7, sub_language = ''en'', sub_longitude = 2,
          sub_latitude = 1, sub_aqi = 3, sub_enabled = 1, sub_created_at = 0\<rparr>],
      subscription_seq = 1,
      CacheTime = 10 * Minute,
      time_text = sqlite_time_text UTC\<rparr>"

text \<open>The subscription of \<open>store_subscribed\<close> as \<^verbatim>\<open>ListEnabledSubscriptions\<close> reads it.\<close>

definition sub_1 :: AQISubscription where
  "sub_1 =
     \<lparr>UserID = 0, ChatID = 7, LanguageCode = ''en'', Longitude = 2, Latitude = 1,
      CreatedAt = 0, ID = 1, AirQualityIndex = 3\<rparr>"

text \<open>An answer of the provider with one reading, half an hour after the stored one.\<close>

definition response_aqi :: "AirQualityIndex \<Rightarrow> ApiPollutionResponse" where
  "response_aqi aqi =
     \<lparr>coord = \<lparr>Location.Latitude = 1, Location.Longitude = 2\<rparr>,
      DP = [\<lparr>Dt = 1700001800, Main_Aqi = aqi, Components = []\<rparr>]\<rparr>"

text \<open>Chat 7 has shared the location (1, 2) and nothing else has happened.\<close>

definition store_session_only :: Store where
  "store_session_only =
     \<lparr>user_session =
        [\<lparr>us_chatid = 7, us_userid = 70, us_language = ''en'', us_longitude = 2,
          us_latitude = 1, us_created_at = 0\<rparr>],
      data_point = [],
      data_point_seq = 0,
      subscription = [],
      subscription_seq = 0,
      CacheTime = 10 * Minute,
      time_text = sqlite_time_text UTC\<rparr>"

text \<open>Chat 7 holds an enabled subscription at the latitude 0 and the longitude 100, and
  has shared the location whose latitude is the \<^verbatim>\<open>float64\<close> nearest to 0.0009 and whose
  longitude is 0.\<close>

definition store_boundary :: Store where
  "store_boundary =
     \<lparr>user_session =
        [\<lparr>us_chatid = 7, us_userid = 70, us_language = ''en'', us_longitude = 0,
          us_latitude = float64_round 0.0009, us_created_at = 0\<rparr>],
      data_point = [],
      data_point_seq = 0,
      subscription =
        [\<lparr>sub_id = 1, sub_chat_id = 7, sub_language = ''en'', sub_longitude = 100,
          sub_latitude = 0, sub_aqi = 2, sub_enabled = 1, sub_created_at = 0\<rparr>],
      subscription_seq = 1,
      CacheTime = 10 * Minute,
      time_text = sqlite_time_text UTC\<rparr>"

text \<open>Chat 7 has shared the location (1, 2) and holds three readings; the one stored
  second, with index 4, is the most recent.\<close>

definition store_three_readings :: Store where
  "store_three_readings =
     \<lparr>user_session =
        [\<lparr>us_chatid = 7, us_userid = 70, us_language = ''en'', us_longitude = 2,
          us_latitude = 1, us_created_at = 0\<rparr>],
      data_point =
        [\<lparr>dp_id = 1, dp_chat_id = 7,
          dp_data = \<lparr>Dt = 1700000000, Main_Aqi = 3, Components = []\<rparr>,
          dp_created_at = time_Unix 1700000000 0\<rparr>,
         \<lparr>dp_id = 2, dp_chat_id = 7,
          dp_data = \<lparr>Dt = 1700003600, Main_Aqi = 4, Components = []\<rparr>,
          dp_created_at = time_Unix 1700003600 0\<rparr>,
         \<lparr>dp_id = 3, dp_chat_id = 7,
          dp_data = \<lparr>Dt = 1700001800, Main_Aqi = 2, Components = []\<rparr>,
          dp_created_at = time_Unix 1700001800 0\<rparr>],
      data_point_seq = 3,
      subscription = [],
      subscription_seq = 0,
      CacheTime = 10 * Minute,
      time_text = sqlite_time_text UTC\<rparr>"

text \<open>A process in New York on the fifth of November 2023. Chat 7 holds a reading of
  05:30 UTC with index 2, which is 01:30 of the summer time, and a reading of 06:10 UTC
  with index 4, which is 01:10 of the winter time. The cache is tested at 06:15 UTC.\<close>

definition store_fall_back :: Store where
  "store_fall_back =
     \<lparr>user_session =
        [\<lparr>us_chatid = 7, us_userid = 70, us_language = ''en'', us_longitude = 2,
          us_latitude = 1, us_created_at = 0\<rparr>],
      data_point =
        [\<lparr>dp_id = 1, dp_chat_id = 7,
          dp_data = \<lparr>Dt = 1699162200, Main_Aqi = 2, Components = []\<rparr>,
          dp_created_at = time_Unix 1699162200 0\<rparr>,
         \<lparr>dp_id = 2, dp_chat_id = 7,
          dp_data = \<lparr>Dt = 1699164600, Main_Aqi = 4, Components = []\<rparr>,
          dp_created_at = time_Unix 1699164600 0\<rparr>],
      data_point_seq = 2,
      subscription = [],
      subscription_seq = 0,
      CacheTime = 10 * Minute,
      time_text = sqlite_time_text New_York\<rparr>"


text \<open>At the time \<^verbatim>\<open>time.Unix(1700000000, 0)\<close>: readings of 13, 11 and 1 hours of age, one
  enabled and two disabled subscriptions.\<close>

definition store_janitor :: Store where
  "store_janitor =
     \<lparr>user_session =
        [\<lparr>us_chatid = 7, us_userid = 70, us_language = ''en'', us_longitude = 2,
          us_latitude = 1, us_created_at = 0\<rparr>],
      data_point =
        [\<lparr>dp_id = 1, dp_chat_id = 7,
          dp_data = \<lparr>Dt = 1700000000 - 13 * 3600, Main_Aqi = 2, Components = []\<rparr>,
          dp_created_at = time_Unix (1700000000 - 13 * 3600) 0\<rparr>,
         \<lparr>dp_id = 2, dp_chat_id = 7,
          dp_data = \<lparr>Dt = 1700000000 - 11 * 3600, Main_Aqi = 2, Components = []\<rparr>,
          dp_created_at = time_Unix (1700000000 - 11 * 3600) 0\<rparr>,
         \<lparr>dp_id = 3, dp_chat_id = 7,
          dp_data = \<lparr>Dt = 1700000000 - 3600, Main_Aqi = 2, Components = []\<rparr>,
          dp_created_at = time_Unix (1700000000 - 3600) 0\<rparr>],
      data_point_seq = 3,
      subscription =
        [\<lparr>sub_id = 1, sub_chat_id = 7, sub_language = ''en'', sub_longitude = 2,
          sub_latitude = 1, sub_aqi = 2, sub_enabled = 1, sub_created_at = 0\<rparr>,
         \<lparr>sub_id = 2, sub_chat_id = 7, sub_language = ''en'', sub_longitude = 20,
          sub_latitude = 10, sub_aqi = 2, sub_enabled = 0, sub_created_at = 0\<rparr>,
         \<lparr>sub_id = 3, sub_chat_id = 7, sub_language = ''en'', sub_longitude = 40,
          sub_latitude = 30, sub_aqi = 2, sub_enabled = 0, sub_created_at = 0\<rparr>],
      subscription_seq = 3,
      CacheTime = 10 * Minute,
      time_text = sqlite_time_text UTC\<rparr>"


definition november_2026 :: int where
  "november_2026 = time_Unix 1793577600 0"


definition share_location :: Message where
  "share_location =
     \<lparr>Chat_ID = 7, From_ID = 70, From_LanguageCode = ''en'',
      msg_Location = Some \<lparr>Location.Latitude = 1, Location.Longitude = 2\<rparr>\<rparr>"

definition provider_aqi_3 :: "Location \<Rightarrow> error + ApiPollutionResponse" where
  "provider_aqi_3 l =
     Inr \<lparr>coord = l, DP = [\<lparr>Dt = 1793577000, Main_Aqi = 3, Components = []\<rparr>]\<rparr>"

text \<open>Three chats with one enabled subscription each and no reading yet; a provider whose
  second answer of a run is an error, whose first reading has index 2 and whose other
  readings have index 4.\<close>

definition store_three :: Store where
  "store_three =
     \<lparr>user_session = [],
      data_point = [],
      data_point_seq = 0,
      subscription =
        [\<lparr>sub_id = 1, sub_chat_id = 7, sub_language = ''en'', sub_longitude = 2,
          sub_latitude = 1, sub_aqi = 3, sub_enabled = 1, sub_created_at = 0\<rparr>,
         \<lparr>sub_id = 2, sub_chat_id = 8, sub_language = ''ru'', sub_longitude = 20,
          sub_latitude = 10, sub_aqi = 2, sub_enabled = 1, sub_created_at = 0\<rparr>,
         \<lparr>sub_id = 3, sub_chat_id = 9, sub_language = ''en'', sub_longitude = 40,
          sub_latitude = 30, sub_aqi = 3, sub_enabled = 1, sub_created_at = 0\<rparr>],
      subscription_seq = 3,
      CacheTime = 10 * Minute,
      time_text = sqlite_time_text UTC\<rparr>"

definition subs_three :: "AQISubscription list" where
  "subs_three =
     [\<lparr>UserID = 0, ChatID = 7, LanguageCode = ''en'', Longitude = 2, Latitude = 1,
       CreatedAt = 0, ID = 1, AirQualityIndex = 3\<rparr>,
      \<lparr>UserID = 0, ChatID = 8, LanguageCode = ''ru'', Longitude = 20, Latitude = 10,
       CreatedAt = 0, ID = 2, AirQualityIndex = 2\<rparr>,
      \<lparr>UserID = 0, ChatID = 9, LanguageCode = ''en'', Longitude = 40, Latitude = 30,
       CreatedAt = 0, ID = 3, AirQualityIndex = 3\<rparr>]"

definition reading_of_call :: "nat \<Rightarrow> Location \<Rightarrow> ApiPollutionResponse" where
  "reading_of_call k l =
     \<lparr>coord = l,
      DP = [\<lparr>Dt = 1700001800, Main_Aqi = (if k = 0 then 2 else 4), Components = []\<rparr>]\<rparr>"

definition provider_second_fails :: "nat \<Rightarrow> Location \<Rightarrow> error + ApiPollutionResponse" where
  "provider_second_fails k l = (if k = 1 then Inl ErrProvider else Inr (reading_of_call k l))"

section \<open>Properties of the store\<close>

subsection \<open>Reading the tables\<close>

lemma GetLastPD_Inr: "\<exists>dp. GetLastPD s c = Inr dp"
  by (simp add: GetLastPD_def split: option.split)

lemma GetLastPD_no_rows:
  "\<forall>r\<in>set (data_point s). dp_chat_id r \<noteq> c \<Longrightarrow> GetLastPD s c = Inr DataPoint_zero"
  by (simp add: GetLastPD_def filter_False)

lemma GetSessionByChatID_ChatID:
  "GetSessionByChatID s c = Inr us \<Longrightarrow> ChatID us = c"
  by (auto simp add: GetSessionByChatID_def filter_eq_Cons_iff split: list.splits)

lemma limit_1_None: "order_by_created_at_desc_limit_1 text rs = None \<longleftrightarrow> rs = []"
  by (induction rs) (auto split: option.splits)

lemma limit_1_Some:
  "order_by_created_at_desc_limit_1 text rs = Some m \<Longrightarrow>
     m \<in> set rs \<and> (\<forall>r\<in>set rs. text (dp_created_at r) \<le> text (dp_created_at m))"
proof (induction rs arbitrary: m)
  case Nil
  then show ?case by simp
next
  case (Cons r rs)
  show ?case
  proof (cases "order_by_created_at_desc_limit_1 text rs")
    case None
    then have "rs = []" by (simp add: limit_1_None)
    with Cons.prems show ?thesis by simp
  next
    case (Some m')
    from Cons.IH [OF Some]
    have ih: "m' \<in> set rs" "\<forall>x\<in>set rs. text (dp_created_at x) \<le> text (dp_created_at m')"
      by simp_all
    show ?thesis
    proof (cases "text (dp_created_at r) < text (dp_created_at m')")
      case True
      with Some Cons.prems have "m = m'" by simp
      moreover from True have "text (dp_created_at r) \<le> text (dp_created_at m')"
        by (rule less_imp_le)
      ultimately show ?thesis using ih by simp
    next
      case False
      with Some Cons.prems have m: "m = r" by simp
      from False have le: "text (dp_created_at m') \<le> text (dp_created_at r)"
        by simp
      have "text (dp_created_at x) \<le> text (dp_created_at r)" if "x \<in> set rs" for x
      proof -
        from ih(2) that have "text (dp_created_at x) \<le> text (dp_created_at m')" by blast
        from this le show ?thesis by (rule order_trans)
      qed
      with m show ?thesis by simp
    qed
  qed
qed

text \<open>What \<^verbatim>\<open>GetLastPD\<close> returns for a chat with readings: the data of a row of the chat
  whose text of \<^verbatim>\<open>created_at\<close> is the greatest.\<close>

lemma GetLastPD_latest:
  assumes "GetLastPD s c = Inr dp" and "\<exists>r\<in>set (data_point s). dp_chat_id r = c"
  shows "\<exists>m\<in>set (data_point s). dp_chat_id m = c \<and> dp = dp_data m \<and>
           (\<forall>r\<in>set (data_point s). dp_chat_id r = c \<longrightarrow>
              time_text s (dp_created_at r) \<le> time_text s (dp_created_at m))"
proof -
  let ?rs = "filter (\<lambda>r. dp_chat_id r = c) (data_point s)"
  from assms(2) have "?rs \<noteq> []" by (simp add: filter_empty_conv)
  then obtain m where m: "order_by_created_at_desc_limit_1 (time_text s) ?rs = Some m"
    using limit_1_None by fastforce
  from limit_1_Some [OF m]
  have "m \<in> set ?rs"
       "\<forall>r\<in>set ?rs. time_text s (dp_created_at r) \<le> time_text s (dp_created_at m)"
    by simp_all
  moreover from assms(1) m have "dp = dp_data m" by (simp add: GetLastPD_def)
  ultimately show ?thesis by auto
qed

subsection \<open>Writing readings\<close>

lemma AddDataPoint_fst: "fst (AddDataPoint c dps s) = None"
  by (induction dps arbitrary: s) simp_all


lemma AddDataPoint_created_at_is_Dt:
  "created_at_is_Dt s \<Longrightarrow> created_at_is_Dt (snd (AddDataPoint c dps s))"
proof (induction dps arbitrary: s)
  case Nil
  then show ?case by simp
next
  case (Cons dp dps)
  from Cons.prems have "created_at_is_Dt (insert_data_point c dp s)"
    by (simp add: created_at_is_Dt_def insert_data_point_def)
  then show ?case
    using Cons.IH by simp
qed

lemma NewStore_created_at_is_Dt: "created_at_is_Dt NewStore"
  by (simp add: created_at_is_Dt_def NewStore_def)

subsection \<open>Numbers and texts of the examples\<close>

text \<open>The \<^verbatim>\<open>float64\<close> nearest to 0.0009 lies below it. The numbers are written as the
  simplifier writes 0.0009 and 1.0005.\<close>

lemma float64_0_0009: "float64_round (9 / 10000) = 8301034833169298 / 2 ^ 63"
  by (simp add: float64_round_def eval_nat_numeral two_to_def round_half_even_def Let_def)

lemma float64_1_0005: "float64_round (2001 / 2000) = 4505851427184181 / 2 ^ 52"
  by (simp add: float64_round_def eval_nat_numeral two_to_def round_half_even_def Let_def)

lemma float64_0_0009_below: "float64_round (9 / 10000) < 9 / 10000"
  by (simp add: float64_0_0009)

lemma float64_sub_1_0005:
  "float64_sub 1 (4505851427184181 / 4503599627370496) = - (2251799813685 / 2 ^ 52)"
  by (simp add: float64_sub_def float64_round_def eval_nat_numeral two_to_def
      round_half_even_def Let_def)

lemma float64_sub_0_0009:
  "float64_sub 0 (4150517416584649 / 4611686018427387904) =
     - (8301034833169298 / 2 ^ 63)"
  by (simp add: float64_sub_def float64_round_def eval_nat_numeral two_to_def
      round_half_even_def Let_def)

lemma float64_sub_whole:
  "float64_sub 2 5 = - 3" "float64_sub 100 0 = 100" "float64_sub 1 3 = - 2"
  by (simp_all add: float64_sub_def float64_round_def eval_nat_numeral two_to_def
      round_half_even_def Let_def)

lemmas float64_examples =
  float64_0_0009 float64_1_0005 float64_sub_1_0005 float64_sub_0_0009 float64_sub_whole
  math_Abs_def

lemmas time_text_defs =
  sqlite_time_text_def zone_text_def local_text_def offset_text_def fraction_text_def
  clock_text_def date_text_def civil_doe_def civil_yoe_def civil_doy_def civil_mp_def
  civil_m_def digits4_def digits2_def digit_def UTC_def New_York_def

lemma time_Unix_seconds:
  "time_Unix 1700000000 0 = 1700000000 * Second"
  "time_Unix 1700001800 0 = 1700001800 * Second"
  "time_Unix 1700003600 0 = 1700003600 * Second"
  "time_Unix 1699162200 0 = 1699162200 * Second"
  "time_Unix 1699164600 0 = 1699164600 * Second"
  by (simp_all add: time_Unix_def wrap_int64_def unixToInternal_def Second_def)

lemma texts_UTC:
  "sqlite_time_text UTC (time_Unix 1700000000 0) = ''2023-11-14 22:13:20+00:00''"
  "sqlite_time_text UTC (time_Unix 1700001800 0) = ''2023-11-14 22:43:20+00:00''"
  "sqlite_time_text UTC (time_Unix 1700003600 0) = ''2023-11-14 23:13:20+00:00''"
  by (simp_all add: time_Unix_seconds) (simp_all add: time_text_defs Second_def)


lemma texts_nanoseconds:
  "sqlite_time_text UTC 1700000000000000000 = ''2023-11-14 22:13:20+00:00''"
  "sqlite_time_text UTC 1700001800000000000 = ''2023-11-14 22:43:20+00:00''"
  "sqlite_time_text UTC 1700003600000000000 = ''2023-11-14 23:13:20+00:00''"
  "sqlite_time_text New_York 1699162200000000000 = ''2023-11-05 01:30:00-04:00''"
  "sqlite_time_text New_York 1699164600000000000 = ''2023-11-05 01:10:00-05:00''"
  by (simp_all add: time_text_defs Second_def)

subsection \<open>The duplicate check\<close>

lemma duplicate_check_iff:
  "duplicate_check us subs \<longleftrightarrow>
     (\<exists>s\<in>set subs.
        math_Abs (float64_sub (Latitude s) (Latitude us)) < float64_round 0.0009 \<or>
        math_Abs (float64_sub (Longitude s) (Longitude us)) < float64_round 0.0009)"
  by (induction subs) auto

lemma duplicate_check_rows:
  "duplicate_check us
     (map (\<lambda>r. \<lparr>UserID = 0, ChatID = sub_chat_id r, LanguageCode = sub_language r,
                 Longitude = sub_longitude r, Latitude = sub_latitude r,
                 CreatedAt = sub_created_at r, ID = 0, AirQualityIndex = sub_aqi r\<rparr>)
        (filter (\<lambda>r. sub_chat_id r = chatID \<and> sub_enabled r = 1) rows)) \<longleftrightarrow>
   (\<exists>r\<in>set rows. sub_chat_id r = chatID \<and> sub_enabled r = 1 \<and>
        (math_Abs (float64_sub (sub_latitude r) (Latitude us)) < float64_round 0.0009 \<or>
         math_Abs (float64_sub (sub_longitude r) (Longitude us)) < float64_round 0.0009))"
  by (auto simp add: duplicate_check_iff)

text \<open>
  C1, as the code has it. For a chat with a stored session, \<^verbatim>\<open>AddAQISubscription\<close>
  returns \<^verbatim>\<open>ErrNotificationExists\<close> if and only if, for some enabled subscription of the
  chat, the difference of the latitudes or the difference of the longitudes, subtracted
  in \<^verbatim>\<open>float64\<close>, is in absolute value below the \<^verbatim>\<open>float64\<close> nearest to 0.0009, which is
  \<open>8301034833169298 / 2 ^ 63\<close>; when it does, the store is left as it was, so no
  subscription row is created.
\<close>

theorem AddAQISubscription_duplicate_iff:
  assumes "GetSessionByChatID s chatID = Inr us"
  shows "(fst (AddAQISubscription now chatID s) = Some ErrNotificationExists \<longleftrightarrow>
            (\<exists>r\<in>set (subscription s). sub_chat_id r = chatID \<and> sub_enabled r = 1 \<and>
               (math_Abs (float64_sub (sub_latitude r) (Latitude us)) < float64_round 0.0009 \<or>
                math_Abs (float64_sub (sub_longitude r) (Longitude us)) <
                  float64_round 0.0009)))
       \<and> (fst (AddAQISubscription now chatID s) = Some ErrNotificationExists \<longrightarrow>
            snd (AddAQISubscription now chatID s) = s)
       \<and> float64_round 0.0009 = 8301034833169298 / 2 ^ 63"
proof -
  obtain dp where dp: "GetLastPD s chatID = Inr dp"
    using GetLastPD_Inr by blast
  show ?thesis
    using assms dp
    by (simp add: AddAQISubscription_def ListAQISubscriptions_def duplicate_check_rows
        float64_0_0009)
qed

lemma GetSessionByChatID_store_subscribed:
  "GetSessionByChatID store_subscribed 7 =
     Inr \<lparr>UserID = 70, ChatID = 7, LanguageCode = ''en'', Longitude = 5,
          Latitude = float64_round 1.0005, CreatedAt = 0\<rparr>"
  by (simp add: GetSessionByChatID_def store_subscribed_def)

lemma AddAQISubscription_store_subscribed:
  "AddAQISubscription 0 7 store_subscribed = (Some ErrNotificationExists, store_subscribed)"
proof -
  have "ListAQISubscriptions store_subscribed 7 =
          Inr [\<lparr>UserID = 0, ChatID = 7, LanguageCode = ''en'', Longitude = 2, Latitude = 1,
                CreatedAt = 0, ID = 0, AirQualityIndex = 3\<rparr>]"
    by (simp add: ListAQISubscriptions_def store_subscribed_def)
  then show ?thesis
    by (simp add: AddAQISubscription_def GetSessionByChatID_store_subscribed
        float64_examples)
qed

text \<open>The session (1.0005, 5) against the subscription (1, 2): the latitudes are close,
  the longitudes three degrees apart, and the subscription is rejected.\<close>

theorem AddAQISubscription_duplicate_iff_witness:
  "GetSessionByChatID store_subscribed 7 =
     Inr \<lparr>UserID = 70, ChatID = 7, LanguageCode = ''en'', Longitude = 5,
          Latitude = float64_round 1.0005, CreatedAt = 0\<rparr>
   \<and> fst (AddAQISubscription 0 7 store_subscribed) = Some ErrNotificationExists
   \<and> snd (AddAQISubscription 0 7 store_subscribed) = store_subscribed"
proof -
  have r: "\<exists>r\<in>set (subscription store_subscribed). sub_chat_id r = 7 \<and> sub_enabled r = 1 \<and>
             (math_Abs (float64_sub (sub_latitude r) (float64_round 1.0005)) <
                float64_round 0.0009 \<or>
              math_Abs (float64_sub (sub_longitude r) 5) < float64_round 0.0009)"
    by (simp add: store_subscribed_def float64_examples)
  show ?thesis
    using r GetSessionByChatID_store_subscribed
      AddAQISubscription_duplicate_iff [OF GetSessionByChatID_store_subscribed, of 0]
    by simp
qed

text \<open>The session (3, 5) against the subscription (1, 2): both axes are far apart, and
  the subscription is accepted.\<close>

lemma AddAQISubscription_far_accepted:
  "fst (AddAQISubscription 0 7
          (snd (UpdateUserSession 0
                  \<lparr>UserID = 70, ChatID = 7, LanguageCode = ''en'', Longitude = 5,
                   Latitude = 3, CreatedAt = 0\<rparr>
                  store_subscribed))) = None"
  by (simp add: AddAQISubscription_def GetSessionByChatID_def ListAQISubscriptions_def
      GetLastPD_def UpdateUserSession_def store_subscribed_def float64_examples)

text \<open>C1, as the claim states it, fails. The enabled subscription of the chat lies at
  the latitude 0 and the session at the \<^verbatim>\<open>float64\<close> nearest to 0.0009, so the latitudes
  differ by less than 0.0009; the difference equals the bound of the code, is not below
  it, and the subscription is stored.\<close>

theorem AddAQISubscription_boundary_counterexample:
  "GetSessionByChatID store_boundary 7 =
     Inr \<lparr>UserID = 70, ChatID = 7, LanguageCode = ''en'', Longitude = 0,
          Latitude = float64_round 0.0009, CreatedAt = 0\<rparr>
   \<and> map sub_chat_id (subscription store_boundary) = [7]
   \<and> map sub_enabled (subscription store_boundary) = [1]
   \<and> map sub_latitude (subscription store_boundary) = [0]
   \<and> \<bar>0 - float64_round 0.0009\<bar> < (0.0009 :: real)
   \<and> fst (AddAQISubscription 5 7 store_boundary) = None
   \<and> map sub_latitude (subscription (snd (AddAQISubscription 5 7 store_boundary))) =
       [0, float64_round 0.0009]"
  by (simp add: store_boundary_def GetSessionByChatID_def AddAQISubscription_def
      ListAQISubscriptions_def GetLastPD_def float64_examples)

subsection \<open>Subscribing without a reading\<close>

text \<open>
  C5, as the code has it. For a chat with a session and no close enabled subscription,
  \<^verbatim>\<open>AddAQISubscription\<close> succeeds whether or not a reading is stored: it appends one
  enabled row at the location of the session. When the chat has no reading, the \<^verbatim>\<open>aqi\<close>
  of the row is 0. When it has readings, the \<^verbatim>\<open>aqi\<close> is the index of a stored reading of
  the chat whose text of \<^verbatim>\<open>created_at\<close> is the greatest, and that reading is the most
  recent one when the texts of the chat are in the order of their times.
\<close>

theorem AddAQISubscription_aqi:
  assumes "GetSessionByChatID s chatID = Inr us"
      and "\<not> (\<exists>r\<in>set (subscription s). sub_chat_id r = chatID \<and> sub_enabled r = 1 \<and>
               (math_Abs (float64_sub (sub_latitude r) (Latitude us)) < float64_round 0.0009 \<or>
                math_Abs (float64_sub (sub_longitude r) (Longitude us)) <
                  float64_round 0.0009))"
  shows "\<exists>aqi.
           AddAQISubscription now chatID s =
             (None,
              s\<lparr>subscription :=
                   subscription s @
                   [\<lparr>sub_id = subscription_seq s + 1, sub_chat_id = chatID,
                     sub_language = LanguageCode us, sub_longitude = Longitude us,
                     sub_latitude = Latitude us, sub_aqi = aqi,
                     sub_enabled = 1, sub_created_at = now\<rparr>],
                 subscription_seq := subscription_seq s + 1\<rparr>)
         \<and> ((\<forall>r\<in>set (data_point s). dp_chat_id r \<noteq> chatID) \<longrightarrow> aqi = 0)
         \<and> ((\<exists>r\<in>set (data_point s). dp_chat_id r = chatID) \<longrightarrow>
              (\<exists>m\<in>set (data_point s). dp_chat_id m = chatID \<and> aqi = Main_Aqi (dp_data m) \<and>
                 (\<forall>r\<in>set (data_point s). dp_chat_id r = chatID \<longrightarrow>
                    time_text s (dp_created_at r) \<le> time_text s (dp_created_at m)) \<and>
                 (text_order_agrees s chatID \<longrightarrow>
                    (\<forall>r\<in>set (data_point s). dp_chat_id r = chatID \<longrightarrow>
                       dp_created_at r \<le> dp_created_at m))))"
proof -
  obtain dp where dp: "GetLastPD s chatID = Inr dp"
    using GetLastPD_Inr by blast
  have c: "ChatID us = chatID"
    using assms(1) by (rule GetSessionByChatID_ChatID)
  have nd: "\<not> duplicate_check us
     (map (\<lambda>r. \<lparr>UserID = 0, ChatID = sub_chat_id r, LanguageCode = sub_language r,
                 Longitude = sub_longitude r, Latitude = sub_latitude r,
                 CreatedAt = sub_created_at r, ID = 0, AirQualityIndex = sub_aqi r\<rparr>)
        (filter (\<lambda>r. sub_chat_id r = chatID \<and> sub_enabled r = 1) (subscription s)))"
    using assms(2) unfolding duplicate_check_rows .
  have ins: "AddAQISubscription now chatID s =
           (None,
            s\<lparr>subscription :=
                 subscription s @
                 [\<lparr>sub_id = subscription_seq s + 1, sub_chat_id = chatID,
                   sub_language = LanguageCode us, sub_longitude = Longitude us,
                   sub_latitude = Latitude us, sub_aqi = Main_Aqi dp,
                   sub_enabled = 1, sub_created_at = now\<rparr>],
               subscription_seq := subscription_seq s + 1\<rparr>)"
    using assms(1) dp c nd
    by (simp add: AddAQISubscription_def ListAQISubscriptions_def GetAQI_def)
  have zero: "Main_Aqi dp = 0" if "\<forall>r\<in>set (data_point s). dp_chat_id r \<noteq> chatID"
    using GetLastPD_no_rows [OF that] dp
    by (auto simp add: DataPoint_zero_def)
  have latest: "\<exists>m\<in>set (data_point s). dp_chat_id m = chatID \<and>
                  Main_Aqi dp = Main_Aqi (dp_data m) \<and>
                 (\<forall>r\<in>set (data_point s). dp_chat_id r = chatID \<longrightarrow>
                    time_text s (dp_created_at r) \<le> time_text s (dp_created_at m)) \<and>
                 (text_order_agrees s chatID \<longrightarrow>
                    (\<forall>r\<in>set (data_point s). dp_chat_id r = chatID \<longrightarrow>
                       dp_created_at r \<le> dp_created_at m))"
    if "\<exists>r\<in>set (data_point s). dp_chat_id r = chatID"
  proof -
    from GetLastPD_latest [OF dp that] obtain m where
      m: "m \<in> set (data_point s)" "dp_chat_id m = chatID" "dp = dp_data m"
         "\<forall>r\<in>set (data_point s). dp_chat_id r = chatID \<longrightarrow>
            time_text s (dp_created_at r) \<le> time_text s (dp_created_at m)"
      by blast
    have "\<forall>r\<in>set (data_point s). dp_chat_id r = chatID \<longrightarrow>
            dp_created_at r \<le> dp_created_at m"
      if "text_order_agrees s chatID"
      using that m(1,2,4) unfolding text_order_agrees_def by blast
    with m show ?thesis by blast
  qed
  show ?thesis
    using ins zero latest by blast
qed

lemma GetLastPD_store_three_readings:
  "GetLastPD store_three_readings 7 = Inr \<lparr>Dt = 1700003600, Main_Aqi = 4, Components = []\<rparr>"
  by (simp add: GetLastPD_def store_three_readings_def texts_UTC)

text \<open>Of the three readings of the chat, the one stored second is the most recent, and
  the subscription is stored with its index 4.\<close>

theorem AddAQISubscription_aqi_witness:
  "AddAQISubscription 5 7 store_three_readings =
     (None,
      store_three_readings
        \<lparr>subscription :=
           [\<lparr>sub_id = 1, sub_chat_id = 7, sub_language = ''en'', sub_longitude = 2,
             sub_latitude = 1, sub_aqi = 4, sub_enabled = 1, sub_created_at = 5\<rparr>],
         subscription_seq := 1\<rparr>)"
proof -
  have h: "GetSessionByChatID store_three_readings 7 =
     Inr \<lparr>UserID = 70, ChatID = 7, LanguageCode = ''en'', Longitude = 2, Latitude = 1,
          CreatedAt = 0\<rparr>"
    by (simp add: store_three_readings_def GetSessionByChatID_def)
  have d: "\<not> (\<exists>r\<in>set (subscription store_three_readings).
               sub_chat_id r = 7 \<and> sub_enabled r = 1 \<and>
               (math_Abs (float64_sub (sub_latitude r)
                  (Latitude \<lparr>UserID = 70, ChatID = 7, LanguageCode = ''en'', Longitude = 2,
                            Latitude = 1, CreatedAt = 0\<rparr>)) < float64_round 0.0009 \<or>
                math_Abs (float64_sub (sub_longitude r)
                  (Longitude \<lparr>UserID = 70, ChatID = 7, LanguageCode = ''en'', Longitude = 2,
                             Latitude = 1, CreatedAt = 0\<rparr>)) < float64_round 0.0009))"
    by (simp add: store_three_readings_def)
  have e: "subscription store_three_readings = []"
    "subscription_seq store_three_readings = 0"
    by (simp_all add: store_three_readings_def)
  have a: "AddAQISubscription 5 7 store_three_readings =
     (None,
      store_three_readings
        \<lparr>subscription :=
           [\<lparr>sub_id = 1, sub_chat_id = 7, sub_language = ''en'', sub_longitude = 2,
             sub_latitude = 1, sub_aqi = 4, sub_enabled = 1, sub_created_at = 5\<rparr>],
         subscription_seq := 1\<rparr>)"
    using h e
    by (simp add: AddAQISubscription_def ListAQISubscriptions_def
        GetLastPD_store_three_readings GetAQI_def)
  show ?thesis
    using a AddAQISubscription_aqi [OF h d, of 5] by simp
qed

text \<open>C5, as the claim states it, fails: the chat has a session and no reading, and the
  subscription is stored with the index 0.\<close>

theorem subscribe_without_reading_counterexample:
  "GetSessionByChatID store_session_only 7 =
     Inr \<lparr>UserID = 70, ChatID = 7, LanguageCode = ''en'', Longitude = 2, Latitude = 1,
          CreatedAt = 0\<rparr>
   \<and> data_point store_session_only = []
   \<and> fst (AddAQISubscription 5 7 store_session_only) = None
   \<and> subscription (snd (AddAQISubscription 5 7 store_session_only)) =
       [\<lparr>sub_id = 1, sub_chat_id = 7, sub_language = ''en'', sub_longitude = 2,
         sub_latitude = 1, sub_aqi = 0, sub_enabled = 1, sub_created_at = 5\<rparr>]"
  by (simp add: store_session_only_def AddAQISubscription_def GetSessionByChatID_def
      ListAQISubscriptions_def GetLastPD_def GetAQI_def DataPoint_zero_def)

subsection \<open>The most recent reading and its absence\<close>

text \<open>
  C6, as the code has it. For a chat without a reading \<^verbatim>\<open>GetLastPD\<close> returns, with a nil
  error, the zero \<^verbatim>\<open>DataPoint\<close>, whose time stamp is 0; this is also its result once that
  very data point has been stored for the chat, so the result does not tell the two
  states apart.
\<close>

theorem GetLastPD_absent_is_zero:
  assumes "\<forall>r\<in>set (data_point s). dp_chat_id r \<noteq> c"
  shows "GetLastPD s c = Inr DataPoint_zero
       \<and> Dt DataPoint_zero = 0
       \<and> GetLastPD (snd (AddDataPoint c [DataPoint_zero] s)) c = GetLastPD s c"
proof -
  have a: "GetLastPD s c = Inr DataPoint_zero"
    using assms by (rule GetLastPD_no_rows)
  have f: "filter (\<lambda>r. dp_chat_id r = c) (data_point s) = []"
    using assms by (simp add: filter_empty_conv)
  have b: "GetLastPD (snd (AddDataPoint c [DataPoint_zero] s)) c = Inr DataPoint_zero"
    using f by (simp add: GetLastPD_def insert_data_point_def)
  show ?thesis using a b by (simp add: DataPoint_zero_def)
qed

theorem GetLastPD_absent_is_zero_witness:
  "GetLastPD NewStore 7 = Inr DataPoint_zero
   \<and> Dt DataPoint_zero = 0
   \<and> GetLastPD (snd (AddDataPoint 7 [DataPoint_zero] NewStore)) 7 = GetLastPD NewStore 7"
proof -
  have h: "\<forall>r\<in>set (data_point NewStore). dp_chat_id r \<noteq> 7"
    by (simp add: NewStore_def)
  show ?thesis
    using GetLastPD_absent_is_zero [OF h] by simp
qed

text \<open>C6, as the claim states it, fails: on the empty table the query yields a reading
  with the time stamp 0 and no error, the same as on a table that holds this reading.\<close>

theorem GetLastPD_absent_counterexample:
  "data_point NewStore = []
   \<and> GetLastPD NewStore 7 = Inr \<lparr>Dt = 0, Main_Aqi = 0, Components = []\<rparr>
   \<and> data_point (snd (AddDataPoint 7 [\<lparr>Dt = 0, Main_Aqi = 0, Components = []\<rparr>] NewStore))
       \<noteq> []
   \<and> GetLastPD (snd (AddDataPoint 7 [\<lparr>Dt = 0, Main_Aqi = 0, Components = []\<rparr>] NewStore)) 7 =
       GetLastPD NewStore 7"
  by (simp add: NewStore_def GetLastPD_def insert_data_point_def DataPoint_zero_def)

subsection \<open>The cache test\<close>







lemma text_order_store_fall_back: "\<not> text_order_agrees store_fall_back 7"
  by (simp add: text_order_agrees_def store_fall_back_def time_Unix_seconds Second_def
      texts_nanoseconds)

text \<open>In UTC the texts of the three readings of \<open>store_three_readings\<close> are in the order
  of their times.\<close>

lemma text_order_store_three_readings: "text_order_agrees store_three_readings 7"
  by (simp add: text_order_agrees_def store_three_readings_def time_Unix_seconds Second_def
      texts_nanoseconds)

text \<open>The cache test of the handler at a reading whose seconds are the last of
  \<^verbatim>\<open>int64\<close>: the time wraps around into the past and the test asks for a fetch.\<close>

lemma cache_expired_wraps:
  "cache_expired november_2026 NewStore \<lparr>Dt = 2 ^ 63 - 1, Main_Aqi = 1, Components = []\<rparr>"
  by (simp add: cache_expired_def NewStore_def time_Since_def time_Unix_def wrap_int64_def
      unixToInternal_def november_2026_def Let_def Minute_def Second_def minDuration_def
      maxDuration_def)

text \<open>With the default store in November 2026 the handler fetches, stores the reading
  of the provider and panics before it sends anything.\<close>

lemma handleLocationMessage_default:
  "fst (handleLocationMessage november_2026 november_2026 provider_aqi_3 share_location
          \<lparr>store = NewStore, tApi = []\<rparr>) = Some ErrNotReference
   \<and> map dp_data
       (data_point (store (snd (handleLocationMessage november_2026 november_2026
                                  provider_aqi_3 share_location
                                  \<lparr>store = NewStore, tApi = []\<rparr>)))) =
     [\<lparr>Dt = 1793577000, Main_Aqi = 3, Components = []\<rparr>]
   \<and> tApi (snd (handleLocationMessage november_2026 november_2026 provider_aqi_3
                  share_location \<lparr>store = NewStore, tApi = []\<rparr>)) = []"
  by (simp add: NewStore_def GetLastPD_def cache_expired_def time_Since_def time_Unix_def
      wrap_int64_def unixToInternal_def DataPoint_zero_def november_2026_def Minute_def
      Second_def minDuration_def maxDuration_def handleLocationMessage_def
      share_location_def provider_aqi_3_def insert_data_point_def UpdateUserSession_def
      Let_def)


subsection \<open>Sessions\<close>

lemma UpdateUserSession_distinct:
  "distinct (map us_chatid (user_session s)) \<Longrightarrow>
   distinct (map us_chatid (user_session (snd (UpdateUserSession now n s))))"
  by (auto simp add: UpdateUserSession_def distinct_map_filter)

lemma update_sessions_distinct:
  "distinct (map us_chatid (user_session s)) \<Longrightarrow>
   distinct (map us_chatid (user_session (update_sessions upds s)))"
  by (induction upds s rule: update_sessions.induct) (simp_all add: UpdateUserSession_distinct)

lemma update_sessions_append:
  "update_sessions (xs @ ys) s = update_sessions ys (update_sessions xs s)"
  by (induction xs s rule: update_sessions.induct) simp_all

lemma UpdateUserSession_rows:
  "filter (\<lambda>r. us_chatid r = ChatID n) (user_session (snd (UpdateUserSession now n s))) =
     [\<lparr>us_chatid = ChatID n, us_userid = UserID n, us_language = LanguageCode n,
       us_longitude = Longitude n, us_latitude = Latitude n, us_created_at = now\<rparr>]"
  by (simp add: UpdateUserSession_def filter_False)

lemma UpdateUserSession_others:
  "c \<noteq> ChatID n \<Longrightarrow>
   GetSessionByChatID (snd (UpdateUserSession now n s)) c = GetSessionByChatID s c"
proof -
  assume "c \<noteq> ChatID n"
  then have "filter (\<lambda>r. us_chatid r \<noteq> ChatID n \<and> us_chatid r = c) (user_session s) =
             filter (\<lambda>r. us_chatid r = c) (user_session s)"
    by (intro filter_cong) auto
  with \<open>c \<noteq> ChatID n\<close> show ?thesis
    by (simp add: GetSessionByChatID_def UpdateUserSession_def)
qed

text \<open>
  C9. From a table with at most one session for each chat, every sequence of session
  updates leads to a table with at most one session for each chat. After an update the
  chat has exactly one row, and each of its columns is the value of that update: the
  session read back is the one written, stamped with the time of the update, whatever
  the row of the chat held before.
\<close>

theorem session_update_full_replace:
  fixes n :: UserSession
  assumes "distinct (map us_chatid (user_session s))"
  shows "distinct (map us_chatid (user_session (update_sessions (upds @ [(now, n)]) s)))
       \<and> filter (\<lambda>r. us_chatid r = ChatID n)
           (user_session (update_sessions (upds @ [(now, n)]) s)) =
         [\<lparr>us_chatid = ChatID n, us_userid = UserID n, us_language = LanguageCode n,
           us_longitude = Longitude n, us_latitude = Latitude n, us_created_at = now\<rparr>]
       \<and> GetSessionByChatID (update_sessions (upds @ [(now, n)]) s) (ChatID n) =
         Inr (n\<lparr>CreatedAt := now\<rparr>)"
proof -
  have d: "distinct (map us_chatid (user_session (update_sessions (upds @ [(now, n)]) s)))"
    using assms by (rule update_sessions_distinct)
  have r: "filter (\<lambda>r. us_chatid r = ChatID n)
           (user_session (update_sessions (upds @ [(now, n)]) s)) =
         [\<lparr>us_chatid = ChatID n, us_userid = UserID n, us_language = LanguageCode n,
           us_longitude = Longitude n, us_latitude = Latitude n, us_created_at = now\<rparr>]"
    by (simp add: update_sessions_append UpdateUserSession_rows)
  have g: "GetSessionByChatID (update_sessions (upds @ [(now, n)]) s) (ChatID n) =
         Inr (n\<lparr>CreatedAt := now\<rparr>)"
    unfolding GetSessionByChatID_def r by simp
  show ?thesis using d r g by simp
qed

text \<open>Chat 7 moves from (1.0005, 5) to (3, 4) and changes user and language.\<close>

theorem session_update_full_replace_witness:
  "distinct (map us_chatid (user_session store_subscribed))
   \<and> user_session
       (update_sessions
          [(10, \<lparr>UserID = 71, ChatID = 7, LanguageCode = ''ru'', Longitude = 4, Latitude = 3,
                 CreatedAt = 0\<rparr>)]
          store_subscribed) =
     [\<lparr>us_chatid = 7, us_userid = 71, us_language = ''ru'', us_longitude = 4,
       us_latitude = 3, us_created_at = 10\<rparr>]
   \<and> GetSessionByChatID
       (update_sessions
          [(10, \<lparr>UserID = 71, ChatID = 7, LanguageCode = ''ru'', Longitude = 4, Latitude = 3,
                 CreatedAt = 0\<rparr>)]
          store_subscribed) 7 =
     Inr \<lparr>UserID = 71, ChatID = 7, LanguageCode = ''ru'', Longitude = 4, Latitude = 3,
          CreatedAt = 10\<rparr>"
proof -
  have h: "distinct (map us_chatid (user_session store_subscribed))"
    by (simp add: store_subscribed_def)
  have u: "user_session
       (update_sessions
          [(10, \<lparr>UserID = 71, ChatID = 7, LanguageCode = ''ru'', Longitude = 4, Latitude = 3,
                 CreatedAt = 0\<rparr>)]
          store_subscribed) =
     [\<lparr>us_chatid = 7, us_userid = 71, us_language = ''ru'', us_longitude = 4,
       us_latitude = 3, us_created_at = 10\<rparr>]"
    by (simp add: store_subscribed_def UpdateUserSession_def)
  show ?thesis
    using h u
      session_update_full_replace [OF h, of "[]" 10
        "\<lparr>UserID = 71, ChatID = 7, LanguageCode = ''ru'', Longitude = 4, Latitude = 3,
          CreatedAt = 0\<rparr>"]
    by simp
qed

subsection \<open>Subscribing again after unsubscribing\<close>

lemma enabled_after_delete:
  "filter (\<lambda>r. sub_chat_id r = c \<and> sub_enabled r = 1)
     (map (\<lambda>r. if sub_chat_id r = c then r\<lparr>sub_enabled := 0\<rparr> else r) rows) = []"
  by (induction rows) auto

text \<open>
  C10. For a chat with a session, \<^verbatim>\<open>AddAQISubscription\<close> right after
  \<^verbatim>\<open>DeleteAQISubscriptions\<close> for the same chat is never rejected: it succeeds, and the
  chat then has exactly one enabled subscription, at the location of the session.
\<close>

theorem subscribe_after_unsubscribe:
  assumes "GetSessionByChatID s chatID = Inr us"
  shows "fst (AddAQISubscription now chatID (snd (DeleteAQISubscriptions chatID s))) = None
       \<and> (\<exists>aqi. ListAQISubscriptions
             (snd (AddAQISubscription now chatID (snd (DeleteAQISubscriptions chatID s))))
             chatID =
           Inr [\<lparr>UserID = 0, ChatID = chatID, LanguageCode = LanguageCode us,
                 Longitude = Longitude us, Latitude = Latitude us, CreatedAt = now,
                 ID = 0, AirQualityIndex = aqi\<rparr>])"
proof -
  let ?s' = "snd (DeleteAQISubscriptions chatID s)"
  have sess: "GetSessionByChatID ?s' chatID = Inr us"
    using assms by (simp add: GetSessionByChatID_def DeleteAQISubscriptions_def)
  have none: "ListAQISubscriptions ?s' chatID = Inr []"
    by (simp add: ListAQISubscriptions_def DeleteAQISubscriptions_def enabled_after_delete)
  obtain dp where dp: "GetLastPD ?s' chatID = Inr dp"
    using GetLastPD_Inr by blast
  have c: "ChatID us = chatID"
    using assms by (rule GetSessionByChatID_ChatID)
  have en: "filter (\<lambda>r. sub_chat_id r = chatID \<and> sub_enabled r = 1) (subscription ?s') = []"
    by (simp add: DeleteAQISubscriptions_def enabled_after_delete)
  show ?thesis
    using sess none dp c en
    by (simp add: AddAQISubscription_def ListAQISubscriptions_def)
qed

text \<open>The chat of \<open>store_subscribed\<close>, whose session is close to its subscription,
  unsubscribes and subscribes again.\<close>

theorem subscribe_after_unsubscribe_witness:
  "fst (AddAQISubscription 0 7 store_subscribed) = Some ErrNotificationExists
   \<and> fst (AddAQISubscription 0 7 (snd (DeleteAQISubscriptions 7 store_subscribed))) = None
   \<and> map sub_enabled
       (subscription
          (snd (AddAQISubscription 0 7 (snd (DeleteAQISubscriptions 7 store_subscribed))))) =
     [0, 1]"
proof -
  have r: "fst (AddAQISubscription 0 7 store_subscribed) = Some ErrNotificationExists"
    by (simp add: AddAQISubscription_store_subscribed)
  have e: "map sub_enabled
       (subscription
          (snd (AddAQISubscription 0 7 (snd (DeleteAQISubscriptions 7 store_subscribed))))) =
     [0, 1]"
    by (simp add: AddAQISubscription_def GetSessionByChatID_def ListAQISubscriptions_def
        DeleteAQISubscriptions_def GetLastPD_def store_subscribed_def)
  show ?thesis
    using r e subscribe_after_unsubscribe [OF GetSessionByChatID_store_subscribed, of 0]
    by simp
qed

section \<open>Properties of the bot\<close>

subsection \<open>One iteration of the reconciliation loop\<close>

text \<open>A reading whose text of \<^verbatim>\<open>created_at\<close> is above those of all the readings of the
  chat is the one \<^verbatim>\<open>GetLastPD\<close> returns once it is stored.\<close>

lemma limit_1_snoc_newer:
  "\<forall>r\<in>set rs. text (dp_created_at r) < text (dp_created_at x) \<Longrightarrow>
   order_by_created_at_desc_limit_1 text (rs @ [x]) = Some x"
proof (induction rs)
  case Nil
  then show ?case by simp
next
  case (Cons r rs)
  then have "order_by_created_at_desc_limit_1 text (rs @ [x]) = Some x" by simp
  moreover from Cons.prems have "text (dp_created_at r) < text (dp_created_at x)" by simp
  ultimately show ?case by simp
qed

lemma GetLastPD_newer:
  assumes "\<forall>r\<in>set (data_point s). dp_chat_id r = c \<longrightarrow>
             time_text s (dp_created_at r) < time_text s (time_Unix (Dt dp) 0)"
  shows "GetLastPD (snd (AddDataPoint c [dp] s)) c = Inr dp"
proof -
  let ?x = "\<lparr>dp_id = data_point_seq s + 1, dp_chat_id = c, dp_data = dp,
             dp_created_at = time_Unix (Dt dp) 0\<rparr>"
  have "\<forall>r\<in>set (filter (\<lambda>r. dp_chat_id r = c) (data_point s)).
          time_text s (dp_created_at r) < time_text s (dp_created_at ?x)"
    using assms by simp
  then have "order_by_created_at_desc_limit_1 (time_text s)
               (filter (\<lambda>r. dp_chat_id r = c) (data_point s) @ [?x]) = Some ?x"
    by (rule limit_1_snoc_newer)
  then show ?thesis
    by (simp add: GetLastPD_def insert_data_point_def)
qed




text \<open>From 3 to 4 the message is headed \<^verbatim>\<open>aqiGetsWorseMsg\<close>; from 3 to 3 nothing is
  sent.\<close>

lemma cron_body_degraded:
  "fst (cron_body sub_1 (Inr (response_aqi 4)) (0, \<lparr>store = store_subscribed, tApi = []\<rparr>)) = 1
   \<and> tApi (snd (cron_body sub_1 (Inr (response_aqi 4))
                  (0, \<lparr>store = store_subscribed, tApi = []\<rparr>))) =
       [\<lparr>msg_ChatID = 7, msg_language = ''en'',
         msg_Text = aqiChangeText aqiGetsWorseMsg 4\<rparr>]"
  by (simp add: cron_body_def response_aqi_def sub_1_def GetLastPD_def
      insert_data_point_def store_subscribed_def texts_UTC GetAQI_def
      UpdateSubscriptionAQI_def Send_def)

lemma cron_body_unchanged:
  "fst (cron_body sub_1 (Inr (response_aqi 3)) (0, \<lparr>store = store_subscribed, tApi = []\<rparr>)) = 0
   \<and> tApi (snd (cron_body sub_1 (Inr (response_aqi 3))
                  (0, \<lparr>store = store_subscribed, tApi = []\<rparr>))) = []"
  by (simp add: cron_body_def response_aqi_def sub_1_def GetLastPD_def
      insert_data_point_def store_subscribed_def texts_UTC GetAQI_def
      UpdateSubscriptionAQI_def Send_def)

subsection \<open>A failed fetch in the reconciliation loop\<close>

text \<open>An iteration whose fetch fails changes nothing; an iteration whose fetch succeeds
  does what the spec asks for.\<close>

lemma cron_body_failed: "cron_body s (Inl err) cb = cb"
  by (cases cb) (simp add: cron_body_def)

lemma cron_body_fetched: "cron_body s (Inr resp) cb = reconcile_fetched s resp cb"
proof -
  obtain i b where cb: "cb = (i, b)" by (cases cb)
  obtain e s1 where a: "AddDataPoint (ChatID s) (DP resp) (store b) = (e, s1)"
    by (cases "AddDataPoint (ChatID s) (DP resp) (store b)")
  with AddDataPoint_fst [of "ChatID s" "DP resp" "store b"] have e: "e = None"
    by simp
  obtain dp where dp: "GetLastPD s1 (ChatID s) = Inr dp"
    using GetLastPD_Inr by blast
  show ?thesis
    using a e dp
    by (simp add: cb cron_body_def reconcile_fetched_def UpdateSubscriptionAQI_def Send_def
        GetAQI_def Let_def)
qed

text \<open>The loop over the answers to the calls \<open>js\<close>, when the call \<open>k\<close> fails and the
  others succeed.\<close>

lemma cron_loop_calls:
  assumes "\<forall>j\<in>set js.
             (j = k \<longrightarrow>
                wAPI j \<lparr>Location.Latitude = Latitude (subs ! j),
                        Location.Longitude = Longitude (subs ! j)\<rparr> = Inl err) \<and>
             (j \<noteq> k \<longrightarrow>
                wAPI j \<lparr>Location.Latitude = Latitude (subs ! j),
                        Location.Longitude = Longitude (subs ! j)\<rparr> = Inr (reading j))"
  shows "cron_loop
           (map (\<lambda>j. (subs ! j,
                       wAPI j \<lparr>Location.Latitude = Latitude (subs ! j),
                               Location.Longitude = Longitude (subs ! j)\<rparr>)) js) cb =
         reconcile_all (map (\<lambda>j. (subs ! j, reading j)) (filter (\<lambda>j. j \<noteq> k) js)) cb"
  using assms
proof (induction js arbitrary: cb)
  case Nil
  then show ?case by simp
next
  case (Cons j js)
  show ?case
  proof (cases "j = k")
    case True
    with Cons show ?thesis by (simp add: cron_body_failed)
  next
    case False
    with Cons show ?thesis by (simp add: cron_body_fetched)
  qed
qed

lemma enumerate_calls:
  "map (\<lambda>(j, s). (s, wAPI j \<lparr>Location.Latitude = Latitude s,
                               Location.Longitude = Longitude s\<rparr>))
     (enumerate 0 subs) =
   map (\<lambda>j. (subs ! j,
              wAPI j \<lparr>Location.Latitude = Latitude (subs ! j),
                      Location.Longitude = Longitude (subs ! j)\<rparr>))
     [0..<length subs]"
  by (rule nth_equalityI) (simp_all add: nth_enumerate_eq)

lemma all_but_one:
  assumes "k < n"
  shows "filter (\<lambda>j. j \<noteq> k) [0..<n] = [0..<k] @ [Suc k..<n]"
proof -
  from assms have "[0..<k + (n - k)] = [0..<k] @ [k..<k + (n - k)]"
    by (intro upt_add_eq_append) simp
  with assms have "[0..<n] = [0..<k] @ k # [Suc k..<n]"
    by (simp add: upt_conv_Cons)
  then show ?thesis
    by (simp add: filter_id_conv)
qed

lemma reconcile_fetched_count: "fst (reconcile_fetched s r cb) \<le> fst cb + 1"
  by (simp add: reconcile_fetched_def Let_def)

lemma reconcile_all_count: "fst (reconcile_all ps cb) \<le> fst cb + length ps"
proof (induction ps cb rule: reconcile_all.induct)
  case (1 cb)
  then show ?case by simp
next
  case (2 sub reading rest cb)
  have "fst (reconcile_fetched sub reading cb) \<le> fst cb + 1"
    by (rule reconcile_fetched_count)
  with 2 show ?case by simp
qed

text \<open>The readings a reconciliation stores: those of every answer, in the order of the
  run, under the chat of their subscription.\<close>

lemma AddDataPoint_stored:
  "map (\<lambda>r. (dp_chat_id r, dp_data r)) (data_point (snd (AddDataPoint c dps s))) =
   map (\<lambda>r. (dp_chat_id r, dp_data r)) (data_point s) @ map (\<lambda>dp. (c, dp)) dps"
  by (induction dps arbitrary: s) (simp_all add: insert_data_point_def)

lemma reconcile_fetched_stored:
  "map (\<lambda>r. (dp_chat_id r, dp_data r))
     (data_point (store (snd (reconcile_fetched sub reading cb)))) =
   map (\<lambda>r. (dp_chat_id r, dp_data r)) (data_point (store (snd cb))) @
   map (\<lambda>dp. (ChatID sub, dp)) (DP reading)"
  by (simp add: reconcile_fetched_def Let_def UpdateSubscriptionAQI_def AddDataPoint_stored)

lemma reconcile_all_stored:
  "map (\<lambda>r. (dp_chat_id r, dp_data r)) (data_point (store (snd (reconcile_all ps cb)))) =
   map (\<lambda>r. (dp_chat_id r, dp_data r)) (data_point (store (snd cb))) @
   concat (map (\<lambda>(sub, reading). map (\<lambda>dp. (ChatID sub, dp)) (DP reading)) ps)"
  by (induction ps cb rule: reconcile_all.induct) (simp_all add: reconcile_fetched_stored)

text \<open>
  C4. Let \<^verbatim>\<open>Cron\<close> run over the snapshot \<open>subs\<close> of the enabled subscriptions, let the
  fetch for the \<open>k\<close>-th of them fail and the fetch for every other one succeed, with the
  answer \<open>reading j\<close> for the \<open>j\<close>-th. Then the run is not aborted: its count, its store
  and its messages are those of reconciling, one after the other as the spec describes
  it, the other \<open>length subs - 1\<close> subscriptions with their answers; the readings of
  each of them are stored; and the count is at most \<open>length subs - 1\<close>, the failed
  subscription adds nothing to it.
\<close>

theorem Cron_failure_isolated:
  assumes "ListEnabledSubscriptions (store b) = Inr subs"
      and "k < length subs"
      and "wAPI k \<lparr>Location.Latitude = Latitude (subs ! k),
                   Location.Longitude = Longitude (subs ! k)\<rparr> = Inl err"
      and "\<forall>j<length subs. j \<noteq> k \<longrightarrow>
             wAPI j \<lparr>Location.Latitude = Latitude (subs ! j),
                     Location.Longitude = Longitude (subs ! j)\<rparr> = Inr (reading j)"
  shows "(let others = map (\<lambda>j. (subs ! j, reading j)) ([0..<k] @ [Suc k..<length subs])
          in Cron wAPI b =
               (Some (fst (reconcile_all others (0, b))), snd (reconcile_all others (0, b)))
             \<and> length others = length subs - 1
             \<and> fst (reconcile_all others (0, b)) \<le> length subs - 1
             \<and> map (\<lambda>r. (dp_chat_id r, dp_data r))
                 (data_point (store (snd (Cron wAPI b)))) =
               map (\<lambda>r. (dp_chat_id r, dp_data r)) (data_point (store b)) @
               concat (map (\<lambda>(sub, reading). map (\<lambda>dp. (ChatID sub, dp)) (DP reading))
                         others))"
proof -
  let ?others = "map (\<lambda>j. (subs ! j, reading j)) ([0..<k] @ [Suc k..<length subs])"
  have calls: "\<forall>j\<in>set [0..<length subs].
             (j = k \<longrightarrow>
                wAPI j \<lparr>Location.Latitude = Latitude (subs ! j),
                        Location.Longitude = Longitude (subs ! j)\<rparr> = Inl err) \<and>
             (j \<noteq> k \<longrightarrow>
                wAPI j \<lparr>Location.Latitude = Latitude (subs ! j),
                        Location.Longitude = Longitude (subs ! j)\<rparr> = Inr (reading j))"
    using assms(3,4) by simp
  have loop: "cron_loop
           (map (\<lambda>(j, s). (s, wAPI j \<lparr>Location.Latitude = Latitude s,
                                       Location.Longitude = Longitude s\<rparr>))
              (enumerate 0 subs)) (0, b) =
         reconcile_all ?others (0, b)"
    unfolding enumerate_calls
      cron_loop_calls [where wAPI = wAPI and reading = reading and subs = subs and k = k
        and err = err, OF calls]
      all_but_one [OF assms(2)] ..
  have run: "Cron wAPI b =
               (Some (fst (reconcile_all ?others (0, b))), snd (reconcile_all ?others (0, b)))"
    using assms(1) loop by (simp add: Cron_def split: prod.split)
  have len: "length ?others = length subs - 1"
    using assms(2) by simp
  have cnt: "fst (reconcile_all ?others (0, b)) \<le> length subs - 1"
    using reconcile_all_count [of ?others "(0, b)"] len by simp
  have stored: "map (\<lambda>r. (dp_chat_id r, dp_data r))
                 (data_point (store (snd (Cron wAPI b)))) =
               map (\<lambda>r. (dp_chat_id r, dp_data r)) (data_point (store b)) @
               concat (map (\<lambda>(sub, reading). map (\<lambda>dp. (ChatID sub, dp)) (DP reading))
                         ?others)"
    using reconcile_all_stored [of ?others "(0, b)"] by (simp add: run)
  show ?thesis
    unfolding Let_def using run len cnt stored by blast
qed

lemma Cron_store_three:
  "Cron provider_second_fails \<lparr>store = store_three, tApi = []\<rparr> =
     (Some 2,
      \<lparr>store =
         store_three
           \<lparr>data_point :=
              [\<lparr>dp_id = 1, dp_chat_id = 7,
                dp_data = \<lparr>Dt = 1700001800, Main_Aqi = 2, Components = []\<rparr>,
                dp_created_at = time_Unix 1700001800 0\<rparr>,
               \<lparr>dp_id = 2, dp_chat_id = 9,
                dp_data = \<lparr>Dt = 1700001800, Main_Aqi = 4, Components = []\<rparr>,
                dp_created_at = time_Unix 1700001800 0\<rparr>],
            data_point_seq := 2,
            subscription :=
              [\<lparr>sub_id = 1, sub_chat_id = 7, sub_language = ''en'', sub_longitude = 2,
                sub_latitude = 1, sub_aqi = 2, sub_enabled = 1, sub_created_at = 0\<rparr>,
               \<lparr>sub_id = 2, sub_chat_id = 8, sub_language = ''ru'', sub_longitude = 20,
                sub_latitude = 10, sub_aqi = 2, sub_enabled = 1, sub_created_at = 0\<rparr>,
               \<lparr>sub_id = 3, sub_chat_id = 9, sub_language = ''en'', sub_longitude = 40,
                sub_latitude = 30, sub_aqi = 4, sub_enabled = 1, sub_created_at = 0\<rparr>]\<rparr>,
       tApi =
         [\<lparr>msg_ChatID = 7, msg_language = ''en'',
           msg_Text = aqiChangeText aqiGetsBetterMsg 2\<rparr>,
          \<lparr>msg_ChatID = 9, msg_language = ''en'',
           msg_Text = aqiChangeText aqiGetsWorseMsg 4\<rparr>]\<rparr>)"
  by (simp add: Cron_def ListEnabledSubscriptions_def store_three_def
      provider_second_fails_def reading_of_call_def enumerate_eq_zip upt_rec cron_body_def
      GetLastPD_def insert_data_point_def GetAQI_def UpdateSubscriptionAQI_def Send_def)

text \<open>\<^verbatim>\<open>Cron\<close> on three subscriptions when the second fetch fails: two readings are
  stored, the chats 7 and 9 are notified, the subscription of chat 8 keeps its index,
  and the count is 2.\<close>

theorem Cron_failure_isolated_witness:
  "fst (Cron provider_second_fails \<lparr>store = store_three, tApi = []\<rparr>) = Some 2
   \<and> tApi (snd (Cron provider_second_fails \<lparr>store = store_three, tApi = []\<rparr>)) =
       [\<lparr>msg_ChatID = 7, msg_language = ''en'', msg_Text = aqiChangeText aqiGetsBetterMsg 2\<rparr>,
        \<lparr>msg_ChatID = 9, msg_language = ''en'', msg_Text = aqiChangeText aqiGetsWorseMsg 4\<rparr>]
   \<and> map sub_aqi
       (subscription (store (snd (Cron provider_second_fails
                                    \<lparr>store = store_three, tApi = []\<rparr>)))) = [2, 2, 4]
   \<and> map dp_chat_id
       (data_point (store (snd (Cron provider_second_fails
                                  \<lparr>store = store_three, tApi = []\<rparr>)))) = [7, 9]
   \<and> Cron provider_second_fails \<lparr>store = store_three, tApi = []\<rparr> =
       (Some (fst (reconcile_all
                     [(subs_three ! 0,
                       reading_of_call 0 \<lparr>Location.Latitude = 1, Location.Longitude = 2\<rparr>),
                      (subs_three ! 2,
                       reading_of_call 2 \<lparr>Location.Latitude = 30, Location.Longitude = 40\<rparr>)]
                     (0, \<lparr>store = store_three, tApi = []\<rparr>))),
        snd (reconcile_all
               [(subs_three ! 0,
                 reading_of_call 0 \<lparr>Location.Latitude = 1, Location.Longitude = 2\<rparr>),
                (subs_three ! 2,
                 reading_of_call 2 \<lparr>Location.Latitude = 30, Location.Longitude = 40\<rparr>)]
               (0, \<lparr>store = store_three, tApi = []\<rparr>)))"
proof -
  have h1: "ListEnabledSubscriptions (store \<lparr>store = store_three, tApi = []\<rparr>) = Inr subs_three"
    by (simp add: ListEnabledSubscriptions_def store_three_def subs_three_def)
  have h2: "1 < length subs_three"
    by (simp add: subs_three_def)
  have h3: "provider_second_fails 1
              \<lparr>Location.Latitude = Latitude (subs_three ! 1),
               Location.Longitude = Longitude (subs_three ! 1)\<rparr> = Inl ErrProvider"
    by (simp add: provider_second_fails_def)
  have h4: "\<forall>j<length subs_three. j \<noteq> 1 \<longrightarrow>
              provider_second_fails j
                \<lparr>Location.Latitude = Latitude (subs_three ! j),
                 Location.Longitude = Longitude (subs_three ! j)\<rparr> =
              Inr (reading_of_call j
                     \<lparr>Location.Latitude = Latitude (subs_three ! j),
                      Location.Longitude = Longitude (subs_three ! j)\<rparr>)"
    by (simp add: provider_second_fails_def)
  have l: "length subs_three = 3" "[Suc (Suc 0)..<3] = [2]" "[0..<Suc 0] = [0]"
    by (simp_all add: subs_three_def upt_rec)
  have c: "Latitude (subs_three ! 0) = 1" "Longitude (subs_three ! 0) = 2"
          "Latitude (subs_three ! 2) = 30" "Longitude (subs_three ! 2) = 40"
    by (simp_all add: subs_three_def)
  from Cron_failure_isolated
         [where wAPI = provider_second_fails and subs = subs_three and k = 1
            and err = ErrProvider
            and reading = "\<lambda>j. reading_of_call j
                                \<lparr>Location.Latitude = Latitude (subs_three ! j),
                                 Location.Longitude = Longitude (subs_three ! j)\<rparr>",
          OF h1 h2 h3 h4]
  have run: "Cron provider_second_fails \<lparr>store = store_three, tApi = []\<rparr> =
       (Some (fst (reconcile_all
                     [(subs_three ! 0,
                       reading_of_call 0 \<lparr>Location.Latitude = 1, Location.Longitude = 2\<rparr>),
                      (subs_three ! 2,
                       reading_of_call 2 \<lparr>Location.Latitude = 30, Location.Longitude = 40\<rparr>)]
                     (0, \<lparr>store = store_three, tApi = []\<rparr>))),
        snd (reconcile_all
               [(subs_three ! 0,
                 reading_of_call 0 \<lparr>Location.Latitude = 1, Location.Longitude = 2\<rparr>),
                (subs_three ! 2,
                 reading_of_call 2 \<lparr>Location.Latitude = 30, Location.Longitude = 40\<rparr>)]
               (0, \<lparr>store = store_three, tApi = []\<rparr>)))"
    by (simp add: Let_def l c)
  have vals:
    "fst (Cron provider_second_fails \<lparr>store = store_three, tApi = []\<rparr>) = Some 2
     \<and> tApi (snd (Cron provider_second_fails \<lparr>store = store_three, tApi = []\<rparr>)) =
         [\<lparr>msg_ChatID = 7, msg_language = ''en'',
           msg_Text = aqiChangeText aqiGetsBetterMsg 2\<rparr>,
          \<lparr>msg_ChatID = 9, msg_language = ''en'',
           msg_Text = aqiChangeText aqiGetsWorseMsg 4\<rparr>]
     \<and> map sub_aqi
         (subscription (store (snd (Cron provider_second_fails
                                      \<lparr>store = store_three, tApi = []\<rparr>)))) = [2, 2, 4]
     \<and> map dp_chat_id
         (data_point (store (snd (Cron provider_second_fails
                                    \<lparr>store = store_three, tApi = []\<rparr>)))) = [7, 9]"
    by (simp add: Cron_store_three)
  from vals run show ?thesis
    by blast
qed

subsection \<open>The cleanup job\<close>

lemma ClenupAQISubscriptions_fails:
  "ClenupAQISubscriptions s = (Some (ErrSyntax ''subscription''), s)"
  by (simp add: ClenupAQISubscriptions_def sql_words_def)

lemma ClenupDataPoint_fails:
  "ClenupDataPoint now s = (Some (ErrSyntax ''data_point''), s)"
  by (simp add: ClenupDataPoint_def sql_words_def)

lemma CronCleanup_id: "CronCleanup b = b"
  by (simp add: CronCleanup_def ClenupAQISubscriptions_fails)

text \<open>With the keyword \<^verbatim>\<open>FROM\<close> the two statements are accepted.\<close>

lemma prepare_delete_FROM:
  "prepare_delete (sql_words ''DELETE FROM subscription WHERE enabled=0'') =
     Inr ''subscription''
   \<and> prepare_delete
       (sql_words
          ''DELETE FROM data_point WHERE created_at <= datetime('now', '-12 hour')'') =
     Inr ''data_point''"
  by (simp add: sql_words_def)

text \<open>
  C7 on the code. The store holds one enabled and two disabled subscriptions.
  \<^verbatim>\<open>ClenupAQISubscriptions\<close> fails with a syntax error at the word \<^verbatim>\<open>subscription\<close> and
  deletes nothing; \<^verbatim>\<open>CronCleanup\<close> leaves the two disabled rows in the table.
\<close>

theorem cleanup_keeps_disabled_subscriptions:
  "map sub_enabled (subscription store_janitor) = [1, 0, 0]
   \<and> ClenupAQISubscriptions store_janitor = (Some (ErrSyntax ''subscription''), store_janitor)
   \<and> map sub_enabled
       (subscription (store (CronCleanup \<lparr>store = store_janitor, tApi = []\<rparr>))) = [1, 0, 0]"
  by (simp add: ClenupAQISubscriptions_fails CronCleanup_id) (simp add: store_janitor_def)

text \<open>
  C8 on the code. The store holds readings of 13, 11 and 1 hours of age. \<^verbatim>\<open>CronCleanup\<close>
  does not call \<^verbatim>\<open>ClenupDataPoint\<close> and leaves the three readings in the table;
  \<^verbatim>\<open>ClenupDataPoint\<close> itself fails with a syntax error at the word \<^verbatim>\<open>data_point\<close> and
  deletes nothing.
\<close>

theorem cleanup_keeps_stale_readings:
  "map (\<lambda>r. time_Since (time_Unix 1700000000 0) (dp_created_at r)) (data_point store_janitor) =
     [13 * Hour, 11 * Hour, 1 * Hour]
   \<and> data_point (store (CronCleanup \<lparr>store = store_janitor, tApi = []\<rparr>)) =
       data_point store_janitor
   \<and> ClenupDataPoint (time_Unix 1700000000 0) store_janitor =
       (Some (ErrSyntax ''data_point''), store_janitor)"
  by (simp add: ClenupDataPoint_fails CronCleanup_id)
     (simp add: store_janitor_def time_Since_def time_Unix_def wrap_int64_def
        unixToInternal_def Hour_def Minute_def Second_def
        minDuration_def maxDuration_def Let_def)

end
